theory Spec2Isabelle
  imports Main "HOL-Library.Sublist" "HOL-Library.AList"
begin

section \<open>Strings and numbers of the host language\<close>

text \<open>
  The summarize tool (\<^verbatim>\<open>src/index.ts\<close>) works on JavaScript strings, which are sequences of
  UTF-16 code units; \<^verbatim>\<open>length\<close> counts code units. The model uses lists of 8-bit
  characters. A character stands for the code unit of the same number, with one exception: the
  program itself writes the bullet U+2022, which lies above U+00FF, and the character 0x95
  stands for it. Under every operation of the program the bullet is not white space, not a
  word character, not a digit, has no case and has length one, and so has 0x95 in the model.
  The modelled texts are therefore those over the code units U+0000 to U+0094, U+0096 to
  U+00FF and U+2022; the control character U+0095 and every other code unit above U+00FF are
  outside the model.
\<close>

definition bullet :: char where
  "bullet = CHR 0x95"

definition newline :: char where
  "newline = CHR 0x0A"

text \<open>The regular-expression class \<^verbatim>\<open>\s\<close>, also the characters removed by \<^verbatim>\<open>trim()\<close>.\<close>

definition is_space :: "char \<Rightarrow> bool" where
  "is_space c = (c \<in> set [CHR 0x09, CHR 0x0A, CHR 0x0B, CHR 0x0C, CHR 0x0D, CHR '' '', CHR 0xA0])"

text \<open>The regular-expression dot matches everything except line terminators.\<close>

definition is_line_terminator :: "char \<Rightarrow> bool" where
  "is_line_terminator c = (c \<in> set [CHR 0x0A, CHR 0x0D])"

definition is_digit :: "char \<Rightarrow> bool" where
  "is_digit c = (c \<in> set ''0123456789'')"

definition is_lower :: "char \<Rightarrow> bool" where
  "is_lower c = (c \<in> set ''abcdefghijklmnopqrstuvwxyz'')"

definition is_upper :: "char \<Rightarrow> bool" where
  "is_upper c = (c \<in> set ''ABCDEFGHIJKLMNOPQRSTUVWXYZ'')"

text \<open>The class \<^verbatim>\<open>\w\<close>.\<close>

definition is_word :: "char \<Rightarrow> bool" where
  "is_word c = (is_lower c \<or> is_upper c \<or> is_digit c \<or> c = CHR ''_'')"

text \<open>
  \<^verbatim>\<open>toLowerCase()\<close> on the modelled code units: the ASCII capitals and the Latin-1 capitals
  U+00C0 to U+00DE (without the multiplication sign U+00D7) move up by 32.
\<close>

definition lower_table :: "(char \<times> char) list" where
  "lower_table = zip
     (''ABCDEFGHIJKLMNOPQRSTUVWXYZ'' @
      [CHR 0xC0, CHR 0xC1, CHR 0xC2, CHR 0xC3, CHR 0xC4, CHR 0xC5, CHR 0xC6, CHR 0xC7,
       CHR 0xC8, CHR 0xC9, CHR 0xCA, CHR 0xCB, CHR 0xCC, CHR 0xCD, CHR 0xCE, CHR 0xCF,
       CHR 0xD0, CHR 0xD1, CHR 0xD2, CHR 0xD3, CHR 0xD4, CHR 0xD5, CHR 0xD6,
       CHR 0xD8, CHR 0xD9, CHR 0xDA, CHR 0xDB, CHR 0xDC, CHR 0xDD, CHR 0xDE])
     (''abcdefghijklmnopqrstuvwxyz'' @
      [CHR 0xE0, CHR 0xE1, CHR 0xE2, CHR 0xE3, CHR 0xE4, CHR 0xE5, CHR 0xE6, CHR 0xE7,
       CHR 0xE8, CHR 0xE9, CHR 0xEA, CHR 0xEB, CHR 0xEC, CHR 0xED, CHR 0xEE, CHR 0xEF,
       CHR 0xF0, CHR 0xF1, CHR 0xF2, CHR 0xF3, CHR 0xF4, CHR 0xF5, CHR 0xF6,
       CHR 0xF8, CHR 0xF9, CHR 0xFA, CHR 0xFB, CHR 0xFC, CHR 0xFD, CHR 0xFE])"

definition toLowerChar :: "char \<Rightarrow> char" where
  "toLowerChar c = (case map_of lower_table c of Some l \<Rightarrow> l | None \<Rightarrow> c)"

definition toLowerCase :: "string \<Rightarrow> string" where
  "toLowerCase s = map toLowerChar s"

definition trim :: "string \<Rightarrow> string" where
  "trim s = rev (dropWhile is_space (rev (dropWhile is_space s)))"

fun startsWith :: "string \<Rightarrow> string \<Rightarrow> bool" where
  "startsWith s [] = True"
| "startsWith [] (p # ps) = False"
| "startsWith (c # cs) (p # ps) = (c = p \<and> startsWith cs ps)"

definition endsWith :: "string \<Rightarrow> string \<Rightarrow> bool" where
  "endsWith s p = startsWith (rev s) (rev p)"

text \<open>\<^verbatim>\<open>s.includes(sub)\<close>: \<open>sub\<close> occurs in \<open>s\<close> as a contiguous substring.\<close>

fun includes_str :: "string \<Rightarrow> string \<Rightarrow> bool" where
  "includes_str [] sub = (sub = [])"
| "includes_str (c # cs) sub = (startsWith (c # cs) sub \<or> includes_str cs sub)"

text \<open>\<^verbatim>\<open>s.split(d)\<close> for a one-character separator; the result is never empty.\<close>

fun split_on :: "char \<Rightarrow> string \<Rightarrow> string list" where
  "split_on d [] = [[]]"
| "split_on d (c # cs) =
     (if c = d then [] # split_on d cs
      else (case split_on d cs of [] \<Rightarrow> [[c]] | l # ls \<Rightarrow> (c # l) # ls))"

text \<open>\<^verbatim>\<open>xs.join(sep)\<close>.\<close>

fun join :: "string \<Rightarrow> string list \<Rightarrow> string" where
  "join sep [] = []"
| "join sep [x] = x"
| "join sep (x # y # ys) = x @ sep @ join sep (y # ys)"

text \<open>
  \<^verbatim>\<open>s.split(/\s+/)\<close>: the pieces between maximal runs of white space. Leading or trailing
  white space yields an empty first or last piece, and the empty string yields one empty piece.
\<close>

function split_ws :: "string \<Rightarrow> string list" where
  "split_ws [] = [[]]"
| "split_ws (c # cs) =
     (if is_space c then [] # split_ws (dropWhile is_space cs)
      else (case split_ws cs of [] \<Rightarrow> [[c]] | l # ls \<Rightarrow> (c # l) # ls))"
  by pat_completeness auto
termination
  by (relation "measure length") (auto simp: length_dropWhile_le less_Suc_eq_le)

text \<open>\<^verbatim>\<open>xs.slice(0, n)\<close> for an integer \<open>n\<close>: a negative \<open>n\<close> counts from the end.\<close>

definition slice0 :: "int \<Rightarrow> 'a list \<Rightarrow> 'a list" where
  "slice0 n xs = (if n < 0 then take (nat (int (length xs) + n)) xs else take (nat n) xs)"

text \<open>Decimal rendering of a natural number, as string interpolation does.\<close>

fun digit_char :: "nat \<Rightarrow> char" where
  "digit_char n = (''0123456789'' ! (n mod 10))"

function show_nat :: "nat \<Rightarrow> string" where
  "show_nat n = (if n < 10 then [digit_char n] else show_nat (n div 10) @ [digit_char n])"
  by pat_completeness auto
termination
  by (relation "measure id") auto

text \<open>
  Regular expressions are modelled by position matchers: a matcher receives the character
  before the current position (for \<^verbatim>\<open>\b\<close>) and the rest of the input, and returns the
  length of the match that the backtracking search finds at this position, if any. No
  expression of the program matches the empty string.
\<close>

type_synonym matcher = "char option \<Rightarrow> string \<Rightarrow> nat option"

text \<open>\<^verbatim>\<open>\b\<close> between the previous character and the rest of the input.\<close>

definition boundary :: "char option \<Rightarrow> string \<Rightarrow> bool" where
  "boundary prev s =
     ((case prev of None \<Rightarrow> False | Some p \<Rightarrow> is_word p) \<noteq>
      (case s of [] \<Rightarrow> False | c # _ \<Rightarrow> is_word c))"

text \<open>\<^verbatim>\<open>s.match(/r/g) || []\<close>: the successive leftmost matches, left to right.\<close>

function match_all :: "matcher \<Rightarrow> char option \<Rightarrow> string \<Rightarrow> string list" where
  "match_all m prev [] = []"
| "match_all m prev (c # cs) =
     (case m prev (c # cs) of
        None \<Rightarrow> match_all m (Some c) cs
      | Some 0 \<Rightarrow> match_all m (Some c) cs
      | Some (Suc n) \<Rightarrow>
          (c # take n cs) # match_all m (Some (last (c # take n cs))) (drop n cs))"
  by pat_completeness auto
termination
  by (relation "measure (\<lambda>(m, prev, s). length s)") auto

text \<open>
  \<^verbatim>\<open>/r/.test(s)\<close>: some position has a match. Here the expression is given by a
  predicate on positions (previous character, rest of the input).
\<close>

fun re_test :: "(char option \<Rightarrow> string \<Rightarrow> bool) \<Rightarrow> char option \<Rightarrow> string \<Rightarrow> bool" where
  "re_test m prev [] = m prev []"
| "re_test m prev (c # cs) = (m prev (c # cs) \<or> re_test m (Some c) cs)"

text \<open>
  \<^verbatim>\<open>/p1|p2|.../i.test(s)\<close> for literal lower-case ASCII alternatives: under the
  case-insensitive flag a letter of the pattern matches exactly itself and its ASCII capital,
  which is what comparing with the lower-cased input decides.
\<close>

definition test_i :: "string list \<Rightarrow> string \<Rightarrow> bool" where
  "test_i pats s = list_ex (includes_str (toLowerCase s)) pats"

text \<open>
  \<^verbatim>\<open>s.split(/r/)\<close> for an expression that never matches the empty string: the pieces
  between the successive matches; \<open>acc\<close> holds the current piece, reversed.
\<close>

function split_re :: "matcher \<Rightarrow> char option \<Rightarrow> string \<Rightarrow> string \<Rightarrow> string list" where
  "split_re m prev acc [] = [rev acc]"
| "split_re m prev acc (c # cs) =
     (case m prev (c # cs) of
        None \<Rightarrow> split_re m (Some c) (c # acc) cs
      | Some 0 \<Rightarrow> split_re m (Some c) (c # acc) cs
      | Some (Suc n) \<Rightarrow> rev acc # split_re m (Some (last (c # take n cs))) [] (drop n cs))"
  by pat_completeness auto
termination
  by (relation "measure (\<lambda>(m, prev, acc, s). length s)") auto

text \<open>Index of the first occurrence of a substring.\<close>

fun find_str :: "string \<Rightarrow> string \<Rightarrow> nat option" where
  "find_str [] p = (if p = [] then Some 0 else None)"
| "find_str (c # cs) p =
     (if startsWith (c # cs) p then Some 0 else map_option Suc (find_str cs p))"

text \<open>\<^verbatim>\<open>xs.indexOf(x)\<close>: the index of the first element equal to \<open>x\<close>, or \<open>-1\<close>.\<close>

fun indexOf :: "'a list \<Rightarrow> 'a \<Rightarrow> int" where
  "indexOf [] x = - 1"
| "indexOf (y # ys) x =
     (if y = x then 0 else (let i = indexOf ys x in if i < 0 then - 1 else i + 1))"

text \<open>The elements of a \<^verbatim>\<open>Set\<close> built from a list: first occurrences, in order.\<close>

definition set_elements :: "'a list \<Rightarrow> 'a list" where
  "set_elements xs = rev (remdups (rev xs))"

text \<open>
  A \<^verbatim>\<open>Map\<close> is an association list in insertion order with distinct keys:
  \<^verbatim>\<open>m.set(k, v)\<close> is \<^const>\<open>AList.update\<close> (an existing key keeps its place),
  \<^verbatim>\<open>m.get(k)\<close> is \<^const>\<open>map_of\<close>.
\<close>

definition get_or :: "('k \<times> 'v) list \<Rightarrow> 'k \<Rightarrow> 'v \<Rightarrow> 'v" where
  "get_or m k d = (case map_of m k of None \<Rightarrow> d | Some v \<Rightarrow> v)"

text \<open>\<^verbatim>\<open>xs.map((x, i) => `${i + 1}. ${x}`)\<close>.\<close>

definition numbered :: "string list \<Rightarrow> string list" where
  "numbered xs = map (\<lambda>(i, x). show_nat (i + 1) @ ''. '' @ x) (zip [0 ..< length xs] xs)"

section \<open>Content analysis\<close>

record ContentAnalysis =
  sentences :: "string list"
  paragraphs :: "string list"
  sections :: "(string \<times> string list) list"
  "keywords" :: "(string \<times> nat) list"
  entities :: "string list"
  dates :: "string list"
  numbers :: "string list"
  codeBlocks :: "string list"
  lists :: "string list list"
  questions :: "string list"
  actionableItems :: "string list"

subsection \<open>Sentences and paragraphs\<close>

definition is_terminator :: "char \<Rightarrow> bool" where
  "is_terminator c = (c \<in> set ''.!?'')"

text \<open>
  \<^verbatim>\<open>/[^.!?]+[.!?]+/\<close>: a non-empty run of other characters followed by a non-empty run
  of terminators, both maximal. A shorter first run cannot match, since the character after
  it is not a terminator.
\<close>

definition m_sentence :: matcher where
  "m_sentence prev s =
     (let a = length (takeWhile (\<lambda>c. \<not> is_terminator c) s);
          b = length (takeWhile is_terminator (drop a s))
      in if 0 < a \<and> 0 < b then Some (a + b) else None)"

definition split_sentences :: "string \<Rightarrow> string list" where
  "split_sentences text = match_all m_sentence None text"

text \<open>
  \<^verbatim>\<open>/\n\s*\n/\<close>: a newline, then white space up to the last newline of the white-space
  run that follows (the greedy \<^verbatim>\<open>\s*\<close> gives back characters until a newline is next).
\<close>

definition m_parsep :: matcher where
  "m_parsep prev s =
     (case s of [] \<Rightarrow> None
      | c # rest \<Rightarrow>
          if c \<noteq> newline then None
          else (let ws = takeWhile is_space rest;
                    k = length (dropWhile (\<lambda>x. x \<noteq> newline) (rev ws))
                in if k = 0 then None else Some (1 + k)))"

definition split_paragraphs :: "string \<Rightarrow> string list" where
  "split_paragraphs text = filter (\<lambda>p. trim p \<noteq> []) (split_re m_parsep None [] text)"

subsection \<open>Sections\<close>

definition dot :: "char \<Rightarrow> bool" where
  "dot c = (\<not> is_line_terminator c)"

text \<open>
  First alternative of \<^verbatim>\<open>/^#{1,6}\s+(.+)$|^(.+):$/\<close>, giving group 1. The hashes are the
  whole leading run (after fewer hashes the next character is a hash, not white space). The
  greedy \<^verbatim>\<open>\s+\<close> takes the whole white-space run when text follows it; when the line
  ends with the white-space run it gives back its last character to the group.
\<close>

definition heading_title :: "string \<Rightarrow> string option" where
  "heading_title line =
     (let h = length (takeWhile (\<lambda>c. c = CHR ''#'') line);
          r = drop h line;
          ws = takeWhile is_space r;
          t = dropWhile is_space r
      in if h < 1 \<or> 6 < h \<or> ws = [] then None
         else if t \<noteq> [] then (if list_all dot t then Some t else None)
         else if 2 \<le> length ws \<and> dot (last ws) then Some [last ws]
         else None)"

text \<open>Second alternative, giving group 2.\<close>

definition colon_title :: "string \<Rightarrow> string option" where
  "colon_title line =
     (if 2 \<le> length line \<and> last line = CHR '':'' \<and> list_all dot (butlast line)
      then Some (butlast line) else None)"

text \<open>\<^verbatim>\<open>sectionMatch[1] || sectionMatch[2]\<close> when the line matches.\<close>

definition sectionMatch :: "string \<Rightarrow> string option" where
  "sectionMatch line =
     (case heading_title line of Some t \<Rightarrow> Some t | None \<Rightarrow> colon_title line)"

text \<open>
  A section title as the specification words it, to be compared with \<^const>\<open>sectionMatch\<close>:
  a heading-marked line, or a capitalized line ending in a colon.
\<close>

definition spec_is_title :: "string \<Rightarrow> bool" where
  "spec_is_title line =
     (heading_title line \<noteq> None \<or>
      (line \<noteq> [] \<and> is_upper (hd line) \<and> last line = CHR '':''))"

text \<open>The body of the \<^verbatim>\<open>forEach\<close> over the lines; the state is the map and \<^verbatim>\<open>lastSection\<close>.\<close>

definition section_step ::
  "(string \<times> string list) list \<times> string \<Rightarrow> string \<Rightarrow> (string \<times> string list) list \<times> string" where
  "section_step st line =
     (case sectionMatch line of
        Some t \<Rightarrow> (AList.update t [] (fst st), t)
      | None \<Rightarrow>
          if trim line \<noteq> []
          then (AList.update (snd st) (get_or (fst st) (snd st) [] @ [line]) (fst st), snd st)
          else st)"

definition extractSections :: "string \<Rightarrow> (string \<times> string list) list" where
  "extractSections text =
     fst (foldl section_step ([], ''Introduction'') (split_on newline text))"

subsection \<open>Keywords\<close>

definition common_words :: "string list" where
  "common_words =
    [''the'', ''be'', ''to'', ''of'', ''and'', ''a'', ''in'', ''that'', ''have'', ''i'',
     ''it'', ''for'', ''not'', ''on'', ''with'', ''he'', ''as'', ''you'', ''do'', ''at'',
     ''this'', ''but'', ''his'', ''by'', ''from'', ''they'', ''we'', ''say'', ''her'', ''she'',
     ''or'', ''an'', ''will'', ''my'', ''one'', ''all'', ''would'', ''there'', ''their'',
     ''what'', ''so'', ''up'', ''out'', ''if'', ''about'', ''who'', ''get'', ''which'', ''go'',
     ''me'', ''when'', ''make'', ''can'', ''like'', ''time'', ''no'', ''just'', ''him'', ''know'',
     ''take'', ''people'', ''into'', ''year'', ''your'', ''good'', ''some'', ''could'', ''them'',
     ''see'', ''other'', ''than'', ''then'', ''now'', ''look'', ''only'', ''come'', ''its'', ''over'',
     ''think'', ''also'', ''back'', ''after'', ''use'', ''two'', ''how'', ''our'', ''work'',
     ''first'', ''well'', ''way'', ''even'', ''new'', ''want'', ''because'', ''any'', ''these'',
     ''give'', ''day'', ''most'', ''us'', ''is'', ''was'', ''are'', ''been'', ''has'', ''had'',
     ''were'', ''said'', ''did'', ''having'', ''may'', ''such'']"

definition isCommonWord :: "string \<Rightarrow> bool" where
  "isCommonWord word = (toLowerCase word \<in> set common_words)"

text \<open>
  \<^verbatim>\<open>/\b[a-z]{4,}\b/\<close>: a maximal run of at least four lower-case letters between two word
  boundaries (a shorter run ends before a letter, where there is no boundary).
\<close>

definition m_keyword :: matcher where
  "m_keyword prev s =
     (let n = length (takeWhile is_lower s)
      in if boundary prev s \<and> 4 \<le> n \<and> boundary (Some CHR ''a'') (drop n s)
         then Some n else None)"

definition count_word :: "(string \<times> nat) list \<Rightarrow> string \<Rightarrow> (string \<times> nat) list" where
  "count_word kw word =
     (if isCommonWord word then kw else AList.update word (get_or kw word 0 + 1) kw)"

definition extractKeywords :: "string \<Rightarrow> (string \<times> nat) list" where
  "extractKeywords text = foldl count_word [] (match_all m_keyword None (toLowerCase text))"

subsection \<open>Entities, dates, numbers, code blocks\<close>

text \<open>
  \<^verbatim>\<open>(?:\s+[A-Z][a-z]+)*\<close>: the number of characters taken by the greedy repetition. Every
  round is a maximal white-space run, one capital and a maximal run of lower-case letters.
\<close>

function entity_more :: "string \<Rightarrow> nat" where
  "entity_more s =
     (let w = length (takeWhile is_space s)
      in if w = 0 then 0
         else (case drop w s of
                 [] \<Rightarrow> 0
               | u # r \<Rightarrow>
                   (let n = length (takeWhile is_lower r)
                    in if is_upper u \<and> 0 < n then w + 1 + n + entity_more (drop n r) else 0)))"
  by pat_completeness auto
termination
proof (relation "measure length", goal_cases)
  case 1
  show ?case by simp
next
  case (2 s w u r n)
  have "length (drop w s) \<le> length s" by simp
  with 2 show ?case by simp
qed

text \<open>\<^verbatim>\<open>/\b[A-Z][a-z]+(?:\s+[A-Z][a-z]+)*/\<close>.\<close>

definition m_entity :: matcher where
  "m_entity prev s =
     (case s of [] \<Rightarrow> None
      | u # r \<Rightarrow>
          (let n = length (takeWhile is_lower r)
           in if boundary prev s \<and> is_upper u \<and> 0 < n
              then Some (1 + n + entity_more (drop n r)) else None))"

definition extractEntities :: "string \<Rightarrow> string list" where
  "extractEntities text = set_elements (match_all m_entity None text)"

definition digits :: "string \<Rightarrow> nat" where
  "digits s = length (takeWhile is_digit s)"

definition is_date_sep :: "char \<Rightarrow> bool" where
  "is_date_sep c = (c \<in> set ''/-'')"

text \<open>
  \<^verbatim>\<open>\b\d{1,2}[/-]\d{1,2}[/-]\d{2,4}\b\<close>: each digit group must be a whole run of digits,
  because a separator or a word boundary has to follow it.
\<close>

definition m_date_numeric :: matcher where
  "m_date_numeric prev s =
     (let d1 = digits s; s1 = drop d1 s
      in if \<not> (boundary prev s \<and> 1 \<le> d1 \<and> d1 \<le> 2) then None
         else (case s1 of [] \<Rightarrow> None
           | c1 # s2 \<Rightarrow>
               (let d2 = digits s2; s3 = drop d2 s2
                in if \<not> (is_date_sep c1 \<and> 1 \<le> d2 \<and> d2 \<le> 2) then None
                   else (case s3 of [] \<Rightarrow> None
                     | c2 # s4 \<Rightarrow>
                         (let d3 = digits s4
                          in if is_date_sep c2 \<and> 2 \<le> d3 \<and> d3 \<le> 4 \<and>
                                boundary (Some CHR ''0'') (drop d3 s4)
                             then Some (d1 + 1 + d2 + 1 + d3) else None)))))"

definition months :: "string list" where
  "months = [''jan'', ''feb'', ''mar'', ''apr'', ''may'', ''jun'',
             ''jul'', ''aug'', ''sep'', ''oct'', ''nov'', ''dec'']"

text \<open>
  \<^verbatim>\<open>\b(?:Jan|...|Dec)[a-z]* \d{1,2},? \d{4}\b\<close> under the flag \<^verbatim>\<open>i\<close>: the letters may
  have either case; the blanks are the space character.
\<close>

definition m_date_month :: matcher where
  "m_date_month prev s =
     (let l = length (takeWhile (\<lambda>c. is_lower c \<or> is_upper c) (drop 3 s));
          s1 = drop (3 + l) s
      in if \<not> (boundary prev s \<and> length s \<ge> 3 \<and> toLowerCase (take 3 s) \<in> set months) then None
         else (case s1 of [] \<Rightarrow> None
           | b1 # s2 \<Rightarrow>
               (let d = digits s2; s3 = drop d s2;
                    comma = (case s3 of [] \<Rightarrow> 0 | c # _ \<Rightarrow> if c = CHR '','' then 1 else 0);
                    s4 = drop comma s3
                in if \<not> (b1 = CHR '' '' \<and> 1 \<le> d \<and> d \<le> 2) then None
                   else (case s4 of [] \<Rightarrow> None
                     | b2 # s5 \<Rightarrow>
                         if b2 = CHR '' '' \<and> 4 \<le> digits s5 \<and>
                            boundary (Some CHR ''0'') (drop 4 s5)
                         then Some (3 + l + 1 + d + comma + 1 + 4) else None))))"

definition m_date :: matcher where
  "m_date prev s =
     (case m_date_numeric prev s of Some n \<Rightarrow> Some n | None \<Rightarrow> m_date_month prev s)"

definition extractDates :: "string \<Rightarrow> string list" where
  "extractDates text = match_all m_date None text"

text \<open>
  \<^verbatim>\<open>/\b\d+(?:\.\d+)?%?\b/\<close>. The search tries, in this order: fraction and percent sign,
  fraction alone, percent sign alone, the digits alone. A percent sign belongs to the match
  only when a word character follows it.
\<close>

definition percent_next :: "string \<Rightarrow> bool" where
  "percent_next r = (case r of [] \<Rightarrow> False | c # r' \<Rightarrow> c = CHR ''%'' \<and> boundary (Some c) r')"

definition fraction_len :: "string \<Rightarrow> nat option" where
  "fraction_len r =
     (case r of [] \<Rightarrow> None
      | c # r' \<Rightarrow> if c = CHR ''.'' \<and> 0 < digits r' then Some (1 + digits r') else None)"

definition m_number :: matcher where
  "m_number prev s =
     (let d = digits s; r = drop d s
      in if \<not> (boundary prev s \<and> 0 < d) then None
         else (case fraction_len r of
                 Some f \<Rightarrow>
                   if percent_next (drop f r) then Some (d + f + 1)
                   else if boundary (Some CHR ''0'') (drop f r) then Some (d + f)
                   else if boundary (Some CHR ''0'') r then Some d
                   else None
               | None \<Rightarrow>
                   if percent_next r then Some (d + 1)
                   else if boundary (Some CHR ''0'') r then Some d
                   else None))"

definition extractNumbers :: "string \<Rightarrow> string list" where
  "extractNumbers text = match_all m_number None text"

definition fence :: string where
  "fence = [CHR 0x60, CHR 0x60, CHR 0x60]"

text \<open>\<^verbatim>\<open>/```[\s\S]*?```/\<close>: from a fence to the nearest fence after it.\<close>

definition m_code :: matcher where
  "m_code prev s =
     (if startsWith s fence
      then (case find_str (drop 3 s) fence of None \<Rightarrow> None | Some k \<Rightarrow> Some (k + 6))
      else None)"

definition extractCodeBlocks :: "string \<Rightarrow> string list" where
  "extractCodeBlocks text = match_all m_code None text"

subsection \<open>Lists, questions, actionable items\<close>

text \<open>\<^verbatim>\<open>/^[\s]*[-*\<bullet>]\s+/.test(line) || /^[\s]*\d+\.\s+/.test(line)\<close>.\<close>

definition is_list_line :: "string \<Rightarrow> bool" where
  "is_list_line line =
     (let r = dropWhile is_space line; r' = drop (digits r) r
      in (case r of [] \<Rightarrow> False
          | b # t \<Rightarrow> b \<in> set [CHR ''-'', CHR ''*'', bullet] \<and> t \<noteq> [] \<and> is_space (hd t)) \<or>
         (0 < digits r \<and>
          (case r' of [] \<Rightarrow> False
           | p # t \<Rightarrow> p = CHR ''.'' \<and> t \<noteq> [] \<and> is_space (hd t))))"

definition list_step ::
  "string list list \<times> string list \<Rightarrow> string \<Rightarrow> string list list \<times> string list" where
  "list_step st line =
     (if is_list_line line then (fst st, snd st @ [trim line])
      else if snd st \<noteq> [] then (fst st @ [snd st], [])
      else st)"

definition extractLists :: "string \<Rightarrow> string list list" where
  "extractLists text =
     (let st = foldl list_step ([], []) (split_on newline text)
      in if snd st \<noteq> [] then fst st @ [snd st] else fst st)"

definition extractQuestions :: "string list \<Rightarrow> string list" where
  "extractQuestions ss = filter (\<lambda>s. endsWith (trim s) ''?'') ss"

text \<open>White space and then a word character: the tail \<^verbatim>\<open>\s+\w+\<close> or \<^verbatim>\<open>\s*\w+\<close>.\<close>

definition word_after_space :: "nat \<Rightarrow> string \<Rightarrow> bool" where
  "word_after_space least r =
     (let w = length (takeWhile is_space r)
      in least \<le> w \<and> (case drop w r of [] \<Rightarrow> False | c # _ \<Rightarrow> is_word c))"

text \<open>
  The tail \<^verbatim>\<open>\s*.+\<close>: after some of the leading white space comes a character that is
  not a line terminator.
\<close>

definition text_after_space :: "string \<Rightarrow> bool" where
  "text_after_space r =
     (let ws = takeWhile is_space r in list_ex dot ws \<or> drop (length ws) r \<noteq> [])"

text \<open>
  A word boundary, then one of the given phrases in any case, then a tail. The phrases are
  the alternatives of the group, with the optional letters written out.
\<close>

definition phrase_at ::
  "string list \<Rightarrow> (string \<Rightarrow> bool) \<Rightarrow> char option \<Rightarrow> string \<Rightarrow> bool" where
  "phrase_at phrases tail prev s =
     (boundary prev s \<and>
      list_ex (\<lambda>p. startsWith (toLowerCase s) p \<and> tail (drop (length p) s)) phrases)"

definition actionPatterns :: "(char option \<Rightarrow> string \<Rightarrow> bool) list" where
  "actionPatterns =
    [phrase_at [''will'', ''should'', ''must'', ''need to'', ''needs to'', ''have to'',
                ''going to'', ''plan to'', ''intend to''] (word_after_space 1),
     phrase_at [''todo:'', ''fixme:'', ''action:'', ''task:'', ''next step:''] text_after_space,
     phrase_at [''action item:'', ''action items:'', ''next step:'', ''next steps:'',
                ''deliverable:'', ''deliverables:''] text_after_space,
     phrase_at [''responsible:'', ''assigned to:'', ''owner:''] (word_after_space 0)]"

definition extractActionableItems :: "string list \<Rightarrow> string list" where
  "extractActionableItems ss =
     filter (\<lambda>sentence. list_ex (\<lambda>pattern. re_test pattern None sentence) actionPatterns) ss"

subsection \<open>The analysis\<close>

definition analyzeContent :: "string \<Rightarrow> ContentAnalysis" where
  "analyzeContent text =
     \<lparr> sentences = split_sentences text,
       paragraphs = split_paragraphs text,
       sections = extractSections text,
       keywords = extractKeywords text,
       entities = extractEntities text,
       dates = extractDates text,
       numbers = extractNumbers text,
       codeBlocks = extractCodeBlocks text,
       lists = extractLists text,
       questions = extractQuestions (split_sentences text),
       actionableItems = extractActionableItems (split_sentences text) \<rparr>"

section \<open>Key points\<close>

text \<open>
  A JavaScript value used as a condition: an optional string counts as given when it is
  neither \<^verbatim>\<open>undefined\<close> nor empty.
\<close>

definition truthy :: "string option \<Rightarrow> bool" where
  "truthy x = (case x of None \<Rightarrow> False | Some s \<Rightarrow> s \<noteq> [])"

text \<open>The score of one sentence, in the order of the source.\<close>

definition sentence_score :: "ContentAnalysis \<Rightarrow> string \<Rightarrow> int" where
  "sentence_score analysis sentence =
     (let s0 = (if 50 < length sentence \<and> length sentence < 200 then 2 else 0);
          s1 = (if list_ex is_digit sentence then s0 + 1 else s0);
          s2 = foldl (\<lambda>score (keyword, count).
                        if includes_str (toLowerCase sentence) keyword
                        then score + min (int count) 3 else score)
                     s1 (keywords analysis);
          position = indexOf (sentences analysis) sentence
      in if position < 5 then s2 + 2 else s2)"

text \<open>
  \<^verbatim>\<open>sort((a, b) => b.score - a.score)\<close> is a stable sort by descending score; it is the
  stable insertion sort on the negated score.
\<close>

definition extractKeyPoints :: "ContentAnalysis \<Rightarrow> int \<Rightarrow> string option \<Rightarrow> string list" where
  "extractKeyPoints analysis count focus =
     (let candidates =
            (case focus of
               None \<Rightarrow> sentences analysis
             | Some f \<Rightarrow>
                 if f = [] then sentences analysis
                 else filter (\<lambda>s. includes_str (toLowerCase s) (toLowerCase f)) (sentences analysis));
          scored = map (\<lambda>sentence. (sentence, sentence_score analysis sentence)) candidates
      in map (\<lambda>item. trim (fst item)) (slice0 count (sort_key (\<lambda>item. - snd item) scored)))"

text \<open>
  The scoring as the specification words it, to be compared with \<^const>\<open>extractKeyPoints\<close>:
  every candidate carries its own position in the sequence of sentences, and the position
  bonus is given for that position.
\<close>

definition spec_sentence_score :: "ContentAnalysis \<Rightarrow> string \<Rightarrow> nat \<Rightarrow> int" where
  "spec_sentence_score analysis sentence position =
     (if 50 < length sentence \<and> length sentence < 200 then 2 else 0) +
     (if list_ex is_digit sentence then 1 else 0) +
     sum_list (map (\<lambda>(keyword, count).
                      if includes_str (toLowerCase sentence) (toLowerCase keyword)
                      then min (int count) 3 else 0)
                 (keywords analysis)) +
     (if position < 5 then 2 else 0)"

definition spec_extractKeyPoints :: "ContentAnalysis \<Rightarrow> int \<Rightarrow> string option \<Rightarrow> string list" where
  "spec_extractKeyPoints analysis count focus =
     (let indexed = zip (sentences analysis) [0 ..< length (sentences analysis)];
          candidates =
            (case focus of
               None \<Rightarrow> indexed
             | Some f \<Rightarrow> filter (\<lambda>(s, i). includes_str (toLowerCase s) (toLowerCase f)) indexed);
          scored = map (\<lambda>(s, i). (s, spec_sentence_score analysis s i)) candidates
      in map (\<lambda>item. trim (fst item)) (slice0 count (sort_key (\<lambda>item. - snd item) scored)))"

section \<open>Summary generators\<close>

definition generateBriefSummary :: "ContentAnalysis \<Rightarrow> int \<Rightarrow> string" where
  "generateBriefSummary analysis abstractionLevel = join '' '' (extractKeyPoints analysis 3 None)"

definition generateDetailedSummary :: "ContentAnalysis \<Rightarrow> int \<Rightarrow> string" where
  "generateDetailedSummary analysis abstractionLevel =
     (let secs = map (\<lambda>(title, content). ''**'' @ title @ ''**'' @ [newline] @ join '' '' (take 3 content))
                   (filter (\<lambda>(title, content). content \<noteq> []) (sections analysis))
      in join [newline, newline] (take 5 secs))"

definition generateBulletPoints :: "ContentAnalysis \<Rightarrow> string option \<Rightarrow> string" where
  "generateBulletPoints analysis focus =
     join [newline] (map (\<lambda>p. [bullet, CHR '' ''] @ p) (extractKeyPoints analysis 10 focus))"

text \<open>The entries of the keyword map by descending count (stable).\<close>

definition by_count :: "(string \<times> nat) list \<Rightarrow> (string \<times> nat) list" where
  "by_count kw = sort_key (\<lambda>e. - int (snd e)) kw"

definition generateKeyInsights :: "ContentAnalysis \<Rightarrow> int \<Rightarrow> string" where
  "generateKeyInsights analysis abstractionLevel =
     (let topKeywords = map fst (take 5 (by_count (keywords analysis)));
          insights =
            (if topKeywords \<noteq> [] then [''Main themes: '' @ join '', '' topKeywords] else []) @
            (if 5 < length (numbers analysis) then [''Contains significant quantitative data''] else []) @
            (if 3 < length (questions analysis) then [''Raises multiple questions for consideration''] else []) @
            (if 0 < length (codeBlocks analysis) then [''Includes technical implementation details''] else [])
      in join [newline] (numbered insights))"

definition generateActionItems :: "ContentAnalysis \<Rightarrow> string" where
  "generateActionItems analysis =
     (if actionableItems analysis = [] then ''No explicit action items found.''
      else join [newline] (numbered (take 10 (actionableItems analysis))))"

definition technical_terms :: "string list" where
  "technical_terms =
    [''api'', ''algorithm'', ''function'', ''method'', ''class'', ''interface'',
     ''database'', ''server'', ''client'', ''protocol'', ''framework'', ''library'',
     ''component'', ''module'', ''system'', ''architecture'', ''implementation'',
     ''performance'', ''optimization'', ''configuration'', ''deployment'',
     ''integration'', ''authentication'', ''authorization'', ''encryption'',
     ''cache'', ''queue'', ''thread'', ''process'', ''memory'', ''cpu'', ''network'']"

definition isTechnicalTerm :: "string \<Rightarrow> bool" where
  "isTechnicalTerm word = (toLowerCase word \<in> set technical_terms)"

definition generateTechnicalSummary :: "ContentAnalysis \<Rightarrow> int \<Rightarrow> string" where
  "generateTechnicalSummary analysis abstractionLevel =
     (let technicalTerms = take 5 (by_count (filter (\<lambda>e. isTechnicalTerm (fst e)) (keywords analysis)));
          implementation = take 3 (filter
             (test_i [''implement'', ''algorithm'', ''function'', ''method'', ''class'', ''interface'', ''api''])
             (sentences analysis));
          parts =
            (if 0 < length (codeBlocks analysis)
             then [''**Code Examples**: '' @ show_nat (length (codeBlocks analysis)) @ '' code blocks found'']
             else []) @
            (if technicalTerms \<noteq> []
             then [''**Technical concepts**: '' @ join '', '' (map fst technicalTerms)] else []) @
            (if implementation \<noteq> []
             then [''**Implementation details**:'' @ [newline] @ join '' '' implementation] else [])
      in join [newline, newline] parts)"

definition generateExecutiveSummary :: "ContentAnalysis \<Rightarrow> string" where
  "generateExecutiveSummary analysis =
     (let recommendations = take 3 (filter
             (test_i [''recommend'', ''suggest'', ''should'', ''propose'', ''advise''])
             (sentences analysis));
          parts =
            (case paragraphs analysis of [] \<Rightarrow> []
             | p # _ \<Rightarrow> [''**Overview**: '' @ take 200 p @ ''...'']) @
            (if numbers analysis \<noteq> []
             then [''**Key Metrics**: '' @ join '', '' (take 5 (numbers analysis))] else []) @
            (if recommendations \<noteq> []
             then [''**Recommendations**:'' @ [newline] @
                   join [newline] (map (\<lambda>r. [bullet, CHR '' ''] @ trim r) recommendations)]
             else [])
      in join [newline, newline] parts)"

definition generateImpliedQuestions :: "ContentAnalysis \<Rightarrow> string list" where
  "generateImpliedQuestions analysis =
     (let topKeywords = take 3 (by_count (keywords analysis))
      in (if 0 < length (numbers analysis)
          then [''What do these metrics indicate about performance?''] else []) @
         (if 0 < length (dates analysis)
          then [''What is the significance of this timeline?''] else []) @
         (if 0 < length (actionableItems analysis)
          then [''Who is responsible for implementing these actions?''] else []) @
         (case topKeywords of [] \<Rightarrow> []
          | e # _ \<Rightarrow> [''How does '' @ fst e @ '' relate to the main objective?'']))"

definition generateQuestions :: "ContentAnalysis \<Rightarrow> string" where
  "generateQuestions analysis =
     (let qs = (if 0 < length (questions analysis) then questions analysis
                else generateImpliedQuestions analysis)
      in join [newline] (numbered (map trim (take 5 qs))))"

definition positive_terms :: "string list" where
  "positive_terms = [''advantage'', ''benefit'', ''positive'', ''improve'', ''enhance'', ''efficient'']"

definition negative_terms :: "string list" where
  "negative_terms = [''disadvantage'', ''drawback'', ''negative'', ''issue'', ''problem'', ''challenge'']"

text \<open>The body of the \<^verbatim>\<open>forEach\<close> of \<^verbatim>\<open>generateProsConsList\<close>; the state is (pros, cons).\<close>

definition classify_step :: "string list \<times> string list \<Rightarrow> string \<Rightarrow> string list \<times> string list" where
  "classify_step st sentence =
     (if test_i positive_terms sentence then (fst st @ [trim sentence], snd st)
      else if test_i negative_terms sentence then (fst st, snd st @ [trim sentence])
      else st)"

definition classify :: "string list \<Rightarrow> string list \<times> string list" where
  "classify ss = foldl classify_step ([], []) ss"

definition bullets :: "string list \<Rightarrow> string" where
  "bullets xs = join [newline] (map (\<lambda>p. [bullet, CHR '' ''] @ p) xs)"

definition generateProsConsList :: "ContentAnalysis \<Rightarrow> string" where
  "generateProsConsList analysis =
     (let pc = classify (sentences analysis)
      in ''**Pros:**'' @ [newline] @ bullets (take 5 (fst pc)) @
         [newline, newline] @ ''**Cons:**'' @ [newline] @ bullets (take 5 (snd pc)))"

definition generateTimeline :: "ContentAnalysis \<Rightarrow> string" where
  "generateTimeline analysis =
     (if dates analysis = [] then ''No temporal information found for timeline generation.''
      else join [newline]
             (concat (map (\<lambda>date.
                (case filter (\<lambda>s. includes_str s date) (sentences analysis) of
                   [] \<Rightarrow> []
                 | r # _ \<Rightarrow> [''**'' @ date @ ''**: '' @ trim r]))
              (dates analysis))))"

text \<open>
  The \<^verbatim>\<open>replace\<close> in \<^verbatim>\<open>generateCreativeSummary\<close> substitutes the text
  \<^verbatim>\<open>. Meanwhile,\<close> for itself and is left out.
\<close>

definition generateCreativeSummary :: "ContentAnalysis \<Rightarrow> string option \<Rightarrow> string" where
  "generateCreativeSummary analysis instructions =
     (let narrative = join '' Meanwhile, '' (extractKeyPoints analysis 5 None)
      in ''In this narrative, we discover that '' @ toLowerCase narrative @
         '' This journey reveals the interconnected nature of these elements.'')"

definition generateAcademicSummary :: "ContentAnalysis \<Rightarrow> string" where
  "generateAcademicSummary analysis =
     (let thesis = (case paragraphs analysis of
                      [] \<Rightarrow> ''The text presents multiple concepts.''
                    | p # _ \<Rightarrow> if p \<noteq> [] then take 150 p
                               else ''The text presents multiple concepts.'');
          evidence = extractKeyPoints analysis 3 None;
          conclusion = (if paragraphs analysis \<noteq> [] \<and> last (paragraphs analysis) \<noteq> []
                        then take 150 (last (paragraphs analysis))
                        else ''Further research is warranted.'')
      in ''**Thesis**: '' @ thesis @ [newline, newline] @ ''**Evidence**:'' @ [newline] @
         bullets evidence @ [newline, newline] @ ''**Conclusion**: '' @ conclusion)"

text \<open>An array element inside a template literal: a missing element prints as \<^verbatim>\<open>undefined\<close>.\<close>

definition element_text :: "string list \<Rightarrow> nat \<Rightarrow> string" where
  "element_text xs i = (if i < length xs then xs ! i else ''undefined'')"

definition generateConversationalSummary :: "ContentAnalysis \<Rightarrow> string" where
  "generateConversationalSummary analysis =
     (let points = extractKeyPoints analysis 5 None
      in ''So basically, here's what we're looking at: '' @ element_text points 0 @
         '' Also worth noting that '' @ element_text points 1 @
         '' And get this - '' @
         (if 2 < length points \<and> points ! 2 \<noteq> [] then points ! 2
          else ''there are some interesting details here.''))"

definition generateComparisonSummary :: "ContentAnalysis \<Rightarrow> string" where
  "generateComparisonSummary analysis =
     (let comparisons = filter
            (test_i [''compared to'', ''versus'', ''unlike'', ''similar to'', ''different from'', ''contrast''])
            (sentences analysis);
          prosConsResult = generateProsConsList analysis;
          aspects =
            (if 0 < length comparisons
             then [''**Direct Comparisons**:'' @ [newline] @
                   join [newline] (map (\<lambda>c. [bullet, CHR '' ''] @ trim c) (take 3 comparisons))]
             else []) @
            (if prosConsResult \<noteq> ''**Pros:**'' @ [newline, newline, newline] @ ''**Cons:**'' @ [newline]
             then [prosConsResult] else []);
          joined = join [newline, newline] aspects
      in if joined \<noteq> [] then joined else ''No clear comparisons found in the text.'')"

definition generateAutoSummary :: "ContentAnalysis \<Rightarrow> int \<Rightarrow> string option \<Rightarrow> string" where
  "generateAutoSummary analysis abstractionLevel instructions =
     (if 5 < length (actionableItems analysis) then generateActionItems analysis
      else if 2 < length (codeBlocks analysis) then generateTechnicalSummary analysis abstractionLevel
      else if 10 < length (numbers analysis) then generateExecutiveSummary analysis
      else generateDetailedSummary analysis abstractionLevel)"

section \<open>Focus filter, quotes and statistics\<close>

text \<open>The test of the \<^verbatim>\<open>filter\<close> in \<^verbatim>\<open>applyFocusFilter\<close>, for the lower-cased focus.\<close>

definition keeps :: "string \<Rightarrow> string \<Rightarrow> bool" where
  "keeps focusLower line = (includes_str (toLowerCase line) focusLower \<or> length line < 50)"

definition applyFocusFilter :: "string \<Rightarrow> string \<Rightarrow> ContentAnalysis \<Rightarrow> string" where
  "applyFocusFilter summary focus analysis =
     (let focusLower = toLowerCase focus;
          lines = split_on newline summary;
          filtered = filter (keeps focusLower) lines
      in if 2 * length filtered < length lines then summary
         else join [newline] filtered)"

text \<open>
  The test of the focus filter as the specification words it, to be compared with
  \<^const>\<open>keeps\<close>: a line contains the focus term case-insensitively when, at some position of
  the line, there starts a piece that equals the term letter by letter up to the case of the
  letters. Two characters are the same letter when they are equal or one is the capital of the
  other; the capitals and their small letters are listed side by side.
\<close>

definition spec_capitals :: string where
  "spec_capitals = ''ABCDEFGHIJKLMNOPQRSTUVWXYZ'' @
      [CHR 0xC0, CHR 0xC1, CHR 0xC2, CHR 0xC3, CHR 0xC4, CHR 0xC5, CHR 0xC6, CHR 0xC7,
       CHR 0xC8, CHR 0xC9, CHR 0xCA, CHR 0xCB, CHR 0xCC, CHR 0xCD, CHR 0xCE, CHR 0xCF,
       CHR 0xD0, CHR 0xD1, CHR 0xD2, CHR 0xD3, CHR 0xD4, CHR 0xD5, CHR 0xD6,
       CHR 0xD8, CHR 0xD9, CHR 0xDA, CHR 0xDB, CHR 0xDC, CHR 0xDD, CHR 0xDE]"

definition spec_smalls :: string where
  "spec_smalls = ''abcdefghijklmnopqrstuvwxyz'' @
      [CHR 0xE0, CHR 0xE1, CHR 0xE2, CHR 0xE3, CHR 0xE4, CHR 0xE5, CHR 0xE6, CHR 0xE7,
       CHR 0xE8, CHR 0xE9, CHR 0xEA, CHR 0xEB, CHR 0xEC, CHR 0xED, CHR 0xEE, CHR 0xEF,
       CHR 0xF0, CHR 0xF1, CHR 0xF2, CHR 0xF3, CHR 0xF4, CHR 0xF5, CHR 0xF6,
       CHR 0xF8, CHR 0xF9, CHR 0xFA, CHR 0xFB, CHR 0xFC, CHR 0xFD, CHR 0xFE]"

definition same_letter :: "char \<Rightarrow> char \<Rightarrow> bool" where
  "same_letter c d = (c = d \<or> (c, d) \<in> set (zip spec_capitals spec_smalls)
                            \<or> (d, c) \<in> set (zip spec_capitals spec_smalls))"

definition spec_contains_ignoring_case :: "string \<Rightarrow> string \<Rightarrow> bool" where
  "spec_contains_ignoring_case line focus =
     list_ex (\<lambda>rest. list_all2 same_letter (take (length focus) rest) focus) (suffixes line)"

definition matchCount :: "string \<Rightarrow> string \<Rightarrow> nat" where
  "matchCount summaryLower sentence =
     length (filter (\<lambda>word. 4 < length word \<and> includes_str summaryLower word)
               (split_ws (toLowerCase sentence)))"

definition extractRelevantQuotes :: "string \<Rightarrow> string \<Rightarrow> string list" where
  "extractRelevantQuotes text summary =
     (let summaryLower = toLowerCase summary;
          relevant = filter (\<lambda>sentence. 3 < matchCount summaryLower sentence \<and>
                                        30 < length sentence \<and> length sentence < 150)
                       (split_sentences text)
      in take 3 relevant)"


text \<open>
  The statistics object; its fields \<^verbatim>\<open>sentences\<close> and \<^verbatim>\<open>paragraphs\<close> are named
  \<open>sentenceCount\<close> and \<open>paragraphCount\<close> here.
\<close>

record Stats =
  words :: nat
  sentenceCount :: nat
  paragraphCount :: nat
  avgWordsPerSentence :: nat
  characters :: nat
  readingTime :: nat

text \<open>\<^verbatim>\<open>/[.!?]+/\<close>: a maximal run of terminators.\<close>

definition m_terminators :: matcher where
  "m_terminators prev s =
     (let n = length (takeWhile is_terminator s) in if 0 < n then Some n else None)"

text \<open>
  \<^verbatim>\<open>Math.round\<close> and \<^verbatim>\<open>Math.ceil\<close> of a quotient of two counts. The quotient of the
  floating-point division lies on the same side of every integer and half-integer as the
  exact one, so exact integer arithmetic gives the same result.
\<close>

definition round_div :: "nat \<Rightarrow> nat \<Rightarrow> nat" where
  "round_div a b = (2 * a + b) div (2 * b)"

definition ceil_div :: "nat \<Rightarrow> nat \<Rightarrow> nat" where
  "ceil_div a b = (a + b - 1) div b"

definition generateStats :: "string \<Rightarrow> Stats" where
  "generateStats text =
     (let w = length (split_ws text);
          sc = length (match_all m_terminators None text)
      in \<lparr> words = w,
           sentenceCount = sc,
           paragraphCount = length (split_paragraphs text),
           avgWordsPerSentence = (if 0 < sc then round_div w sc else 0),
           characters = length text,
           readingTime = ceil_div w 200 \<rparr>)"

definition quote_md :: "string \<Rightarrow> string" where
  "quote_md q = ''> '' @ [CHR 0x22] @ q @ [CHR 0x22]"

definition quote_plain :: "string \<Rightarrow> string" where
  "quote_plain q = [CHR 0x22] @ q @ [CHR 0x22]"

definition appendQuotes :: "string \<Rightarrow> string list \<Rightarrow> string \<Rightarrow> string" where
  "appendQuotes summary quotes format =
     (if quotes = [] then summary
      else if format = ''markdown''
      then summary @ [newline, newline] @ ''### Relevant Quotes'' @ [newline, newline] @
           join [newline, newline] (map quote_md quotes)
      else if format = ''plain''
      then summary @ [newline, newline] @ ''Relevant Quotes:'' @ [newline, newline] @
           join [newline, newline] (map quote_plain quotes)
      else summary)"

subsection \<open>JSON text\<close>

definition hex_digit :: "nat \<Rightarrow> char" where
  "hex_digit n = (''0123456789abcdef'' ! (n mod 16))"

text \<open>The escape of one code unit inside a JSON string, as \<^verbatim>\<open>JSON.stringify\<close> writes it.\<close>

definition json_escape :: "char \<Rightarrow> string" where
  "json_escape c =
     (if c = CHR 0x22 then [CHR 0x5C, CHR 0x22]
      else if c = CHR 0x5C then [CHR 0x5C, CHR 0x5C]
      else if c = CHR 0x08 then [CHR 0x5C, CHR ''b'']
      else if c = CHR 0x0C then [CHR 0x5C, CHR ''f'']
      else if c = CHR 0x0A then [CHR 0x5C, CHR ''n'']
      else if c = CHR 0x0D then [CHR 0x5C, CHR ''r'']
      else if c = CHR 0x09 then [CHR 0x5C, CHR ''t'']
      else if (of_char c :: nat) < 32
      then [CHR 0x5C, CHR ''u'', CHR ''0'', CHR ''0'',
            hex_digit (of_char c div 16), hex_digit (of_char c)]
      else [c])"

definition json_string :: "string \<Rightarrow> string" where
  "json_string s = [CHR 0x22] @ concat (map json_escape s) @ [CHR 0x22]"

text \<open>One member line of an object printed with the given indentation.\<close>

definition json_member :: "nat \<Rightarrow> string \<Rightarrow> string \<Rightarrow> string" where
  "json_member indent key val = replicate indent CHR '' '' @ json_string key @ '': '' @ val"

definition json_object :: "nat \<Rightarrow> (string \<times> string) list \<Rightarrow> string" where
  "json_object indent members =
     ''{'' @ [newline] @
     join ('','' @ [newline]) (map (\<lambda>(k, v). json_member (indent + 2) k v) members) @
     [newline] @ replicate indent CHR '' '' @ ''}''"

definition stats_json :: "Stats \<Rightarrow> string" where
  "stats_json stats =
     json_object 2
       [(''words'', show_nat (words stats)),
        (''sentences'', show_nat (sentenceCount stats)),
        (''paragraphs'', show_nat (paragraphCount stats)),
        (''avgWordsPerSentence'', show_nat (avgWordsPerSentence stats)),
        (''characters'', show_nat (characters stats)),
        (''readingTime'', show_nat (readingTime stats))]"

definition appendStats :: "string \<Rightarrow> Stats \<Rightarrow> string \<Rightarrow> string" where
  "appendStats summary stats format =
     (if format = ''markdown''
      then summary @ [newline, newline] @ ''---'' @ [newline, newline] @
           ''**Document Statistics:**'' @ [newline] @
           ''- Words: '' @ show_nat (words stats) @ [newline] @
           ''- Sentences: '' @ show_nat (sentenceCount stats) @ [newline] @
           ''- Reading time: ~'' @ show_nat (readingTime stats) @ '' minutes''
      else if format = ''json''
      then json_object 0 [(''summary'', json_string summary), (''stats'', stats_json stats)]
      else summary)"

section \<open>Output formats\<close>

text \<open>
  The two readings of the clock that \<^verbatim>\<open>formatOutput\<close> makes:
  \<^verbatim>\<open>new Date().toISOString()\<close> and \<^verbatim>\<open>new Date().toLocaleDateString()\<close>.
\<close>

record Clock =
  isoString :: string
  localeDateString :: string

record Formatted =
  content :: string
  metadata :: string

definition dq :: string where
  "dq = [CHR 0x22]"

text \<open>\<^verbatim>\<open>replace(/\n\n/g, '</p><p>')\<close>.\<close>

fun replace_blank_lines :: "string \<Rightarrow> string" where
  "replace_blank_lines (c # d # cs) =
     (if c = newline \<and> d = newline then ''</p><p>'' @ replace_blank_lines cs
      else c # replace_blank_lines (d # cs))"
| "replace_blank_lines cs = cs"

text \<open>\<^verbatim>\<open>replace(/\n/g, '<br>')\<close>.\<close>

definition replace_newlines :: "string \<Rightarrow> string" where
  "replace_newlines s = concat (map (\<lambda>c. if c = newline then ''<br>'' else [c]) s)"

text \<open>\<^verbatim>\<open>replace(/\*\*/g, '')\<close>.\<close>

fun remove_bold :: "string \<Rightarrow> string" where
  "remove_bold (c # d # cs) =
     (if c = CHR ''*'' \<and> d = CHR ''*'' then remove_bold cs else c # remove_bold (d # cs))"
| "remove_bold cs = cs"

definition outline_line :: "string \<Rightarrow> string" where
  "outline_line line =
     (if startsWith line ''**'' \<and> endsWith line ''**'' then remove_bold line
      else if startsWith line [bullet, CHR '' ''] then ''  '' @ line
      else if 0 < digits line \<and> startsWith (drop (digits line) line) ''. '' then ''  '' @ line
      else ''    '' @ line)"

text \<open>
  \<^verbatim>\<open>/\[([^\]]+)\]\([^)]+\)/\<close> at the start of the input: the text of group 1 and the
  length of the match.
\<close>

definition link_at :: "string \<Rightarrow> (string \<times> nat) option" where
  "link_at s =
     (case s of [] \<Rightarrow> None
      | c # r \<Rightarrow>
          (let a = length (takeWhile (\<lambda>x. x \<noteq> CHR '']'') r);
               r2 = drop (a + 2) r;
               b = length (takeWhile (\<lambda>x. x \<noteq> CHR '')'') r2)
           in if c = CHR ''['' \<and> 0 < a \<and> startsWith (drop a r) ''](''  \<and> 0 < b \<and> drop b r2 \<noteq> []
              then Some (take a r, a + b + 4) else None))"

text \<open>\<^verbatim>\<open>replace(/\[([^\]]+)\]\([^)]+\)/g, '$1')\<close>.\<close>

function replace_links :: "string \<Rightarrow> string" where
  "replace_links [] = []"
| "replace_links (c # cs) =
     (case link_at (c # cs) of
        None \<Rightarrow> c # replace_links cs
      | Some (txt, n) \<Rightarrow> txt @ replace_links (drop (n - 1) cs))"
  by pat_completeness auto
termination
  by (relation "measure length") auto

definition html_document :: "string \<Rightarrow> string \<Rightarrow> string \<Rightarrow> string" where
  "html_document mode body date =
     join [newline]
       [''<!DOCTYPE html>'',
        ''<html>'',
        ''<head>'',
        ''    <title>Summary - '' @ mode @ ''</title>'',
        ''    <meta charset='' @ dq @ ''utf-8'' @ dq @ ''>'',
        ''</head>'',
        ''<body>'',
        ''    <h1>Summary</h1>'',
        ''    <div class='' @ dq @ ''summary-content'' @ dq @ ''>'',
        ''        '' @ body,
        ''    </div>'',
        ''    <footer>'',
        ''        <p>Generated on '' @ date @ ''</p>'',
        ''    </footer>'',
        ''</body>'',
        ''</html>'']"

definition formatOutput :: "Clock \<Rightarrow> string \<Rightarrow> string \<Rightarrow> string \<Rightarrow> Formatted" where
  "formatOutput clock c format mode =
     (if format = ''json''
      then \<lparr> content = json_object 0
                 [(''mode'', json_string mode),
                  (''summary'', json_string c),
                  (''timestamp'', json_string (isoString clock))],
             metadata = ''json'' \<rparr>
      else if format = ''html''
      then \<lparr> content = html_document mode (replace_newlines (replace_blank_lines c))
                           (localeDateString clock),
             metadata = ''html'' \<rparr>
      else if format = ''outline''
      then \<lparr> content = join [newline] (map outline_line (split_on newline c)),
             metadata = ''outline'' \<rparr>
      else if format = ''plain''
      then \<lparr> content = replace_links (filter (\<lambda>x. x \<notin> set [CHR ''*'', CHR ''_'', CHR ''#'', CHR 0x60]) c),
             metadata = ''plain'' \<rparr>
      else \<lparr> content = c, metadata = ''markdown'' \<rparr>)"

definition trimToWordLimit :: "string \<Rightarrow> int \<Rightarrow> string" where
  "trimToWordLimit text limit =
     (let ws = split_ws text
      in if int (length ws) \<le> limit then text
         else join '' '' (slice0 limit ws) @ ''...'')"

section \<open>Floating-point arithmetic of the compression ratio\<close>

text \<open>
  A JavaScript number is an IEEE 754 binary64 value. A finite value is written here as a pair
  \<open>(n, k)\<close> of integers standing for \<open>n * 2 ^ k\<close>; every operation rounds its exact result
  to 53 significant bits, ties to even. The operands are string lengths, far inside the normal
  range, so neither overflow nor subnormal numbers occur.
\<close>

type_synonym double = "int \<times> int"

text \<open>The number of binary digits of a positive integer.\<close>

function bit_length :: "int \<Rightarrow> int" where
  "bit_length n = (if n \<le> 0 then 0 else 1 + bit_length (n div 2))"
  by pat_completeness auto
termination
  by (relation "measure nat") auto

declare bit_length.simps [simp del]

definition scale :: "int \<Rightarrow> int \<Rightarrow> int" where
  "scale x k = (if 0 \<le> k then x * 2 ^ nat k else x)"

definition round_half_even :: "int \<Rightarrow> int \<Rightarrow> int" where
  "round_half_even p q =
     (let f = p div q; r = p mod q
      in if 2 * r < q then f else if q < 2 * r then f + 1 else if even f then f else f + 1)"

text \<open>The binary64 value nearest to \<open>p / q\<close> for positive \<open>p\<close> and \<open>q\<close>.\<close>

definition fl_pos :: "int \<Rightarrow> int \<Rightarrow> double" where
  "fl_pos p q =
     (let d = bit_length p - bit_length q;
          e = (if scale q d \<le> scale p (- d) then d else d - 1);
          k = e - 52
      in (round_half_even (scale p (- k)) (scale q k), k))"

definition fl :: "int \<Rightarrow> int \<Rightarrow> double" where
  "fl p q = (if p = 0 then (0, 0)
             else if p < 0 then (- fst (fl_pos (- p) q), snd (fl_pos (- p) q))
             else fl_pos p q)"

text \<open>\<^verbatim>\<open>1 - x\<close> and \<^verbatim>\<open>x * 100\<close>.\<close>

definition one_minus :: "double \<Rightarrow> double" where
  "one_minus x = fl (scale 1 (- snd x) - scale (fst x) (snd x)) (scale 1 (- snd x))"

definition times100 :: "double \<Rightarrow> double" where
  "times100 x = fl (100 * scale (fst x) (snd x)) (scale 1 (- snd x))"

text \<open>\<^verbatim>\<open>Math.round\<close>: the nearest integer, a tie going up.\<close>

definition js_round :: "double \<Rightarrow> int" where
  "js_round x = (2 * scale (fst x) (snd x) + scale 1 (- snd x)) div (2 * scale 1 (- snd x))"

datatype jsnum = Num int | NaN | NegInfinity

text \<open>
  \<^verbatim>\<open>Math.round((1 - summaryLength / originalLength) * 100)\<close>. A division by zero gives
  \<^verbatim>\<open>NaN\<close> for \<open>0 / 0\<close> and otherwise \<^verbatim>\<open>Infinity\<close>, which the later steps turn into
  \<^verbatim>\<open>-Infinity\<close>.
\<close>

definition compression :: "nat \<Rightarrow> nat \<Rightarrow> jsnum" where
  "compression summaryLen originalLen =
     (if originalLen = 0 then (if summaryLen = 0 then NaN else NegInfinity)
      else Num (js_round (times100 (one_minus (fl (int summaryLen) (int originalLen))))))"

text \<open>
  The compression ratio as the specification words it, to be compared with the value that
  \<^verbatim>\<open>execute\<close> returns: the same rounding, over the numbers of words of the summary and of
  the original, and 0 when the original has no word.
\<close>

definition spec_wordCount :: "string \<Rightarrow> nat" where
  "spec_wordCount s = length (filter (\<lambda>w. w \<noteq> []) (split_ws s))"

definition spec_compressionRatio :: "string \<Rightarrow> string \<Rightarrow> jsnum" where
  "spec_compressionRatio summary original =
     (if spec_wordCount original = 0 then Num 0
      else compression (spec_wordCount summary) (spec_wordCount original))"

section \<open>The tool\<close>

text \<open>
  The arguments of \<^verbatim>\<open>execute\<close>; \<open>None\<close> is \<^verbatim>\<open>undefined\<close>, which the destructuring
  replaces by the default.
\<close>

record Args =
  arg_text :: "string option"
  arg_file :: "string option"
  arg_mode :: "string option"
  arg_format :: "string option"
  arg_instructions :: "string option"
  arg_max_length :: "int option"
  arg_language :: "string option"
  arg_include_quotes :: "bool option"
  arg_include_stats :: "bool option"
  arg_focus :: "string option"
  arg_abstraction_level :: "int option"

definition with_default :: "'a \<Rightarrow> 'a option \<Rightarrow> 'a" where
  "with_default d x = (case x of None \<Rightarrow> d | Some v \<Rightarrow> v)"

text \<open>
  What the file system answers for a path: the file does not exist, reading it throws with a
  message, or it has a content.
\<close>

datatype file_outcome = Missing | ReadFailure string | Contents string

record ResultData =
  data_mode :: string
  data_format :: string
  abstractionLevel :: int
  originalLength :: nat
  summaryLength :: nat
  compressionRatio :: jsnum
  data_source :: string
  data_method :: string
  data_metadata :: string

record Result =
  success :: bool
  "output" :: "string option"
  error :: "string option"
  data :: "ResultData option"

definition failure :: "string \<Rightarrow> Result" where
  "failure msg = \<lparr> success = False, output = None, error = Some msg, data = None \<rparr>"

text \<open>The \<^verbatim>\<open>switch\<close> over the mode.\<close>

definition generate ::
  "string \<Rightarrow> ContentAnalysis \<Rightarrow> int \<Rightarrow> string option \<Rightarrow> string option \<Rightarrow> string" where
  "generate mode analysis abstraction_level focus instructions =
     (if mode = ''brief'' then generateBriefSummary analysis abstraction_level
      else if mode = ''detailed'' then generateDetailedSummary analysis abstraction_level
      else if mode = ''bullet_points'' then generateBulletPoints analysis focus
      else if mode = ''key_insights'' then generateKeyInsights analysis abstraction_level
      else if mode = ''action_items'' then generateActionItems analysis
      else if mode = ''technical'' then generateTechnicalSummary analysis abstraction_level
      else if mode = ''executive'' then generateExecutiveSummary analysis
      else if mode = ''questions'' then generateQuestions analysis
      else if mode = ''pros_cons'' then generateProsConsList analysis
      else if mode = ''timeline'' then generateTimeline analysis
      else if mode = ''creative'' then generateCreativeSummary analysis instructions
      else if mode = ''academic'' then generateAcademicSummary analysis
      else if mode = ''conversational'' then generateConversationalSummary analysis
      else if mode = ''comparison'' then generateComparisonSummary analysis
      else generateAutoSummary analysis abstraction_level instructions)"

text \<open>The steps from the analysis to the summary that is handed to \<^verbatim>\<open>formatOutput\<close>.\<close>

definition summarize :: "Args \<Rightarrow> string \<Rightarrow> string" where
  "summarize args contentToSummarize =
     (let mode = with_default ''auto'' (arg_mode args);
          format = with_default ''markdown'' (arg_format args);
          analysis = analyzeContent contentToSummarize;
          s0 = generate mode analysis (with_default 3 (arg_abstraction_level args))
                 (arg_focus args) (arg_instructions args);
          s1 = (case arg_focus args of
                  None \<Rightarrow> s0
                | Some focus \<Rightarrow> if focus = [] then s0 else applyFocusFilter s0 focus analysis);
          s2 = (if with_default False (arg_include_quotes args)
                then appendQuotes s1 (extractRelevantQuotes contentToSummarize s1) format
                else s1)
      in if with_default False (arg_include_stats args)
         then appendStats s2 (generateStats contentToSummarize) format
         else s2)"

text \<open>The optional trimming to \<^verbatim>\<open>max_length\<close> words.\<close>

definition apply_max_length :: "Args \<Rightarrow> string \<Rightarrow> string" where
  "apply_max_length args c =
     (if 0 < with_default 0 (arg_max_length args)
      then trimToWordLimit c (with_default 0 (arg_max_length args)) else c)"

text \<open>Formatting and trimming.\<close>

definition finish :: "Clock \<Rightarrow> Args \<Rightarrow> string \<Rightarrow> Formatted" where
  "finish clock args summary =
     (let formattedSummary = formatOutput clock summary
            (with_default ''markdown'' (arg_format args)) (with_default ''auto'' (arg_mode args))
      in formattedSummary \<lparr> content := apply_max_length args (content formattedSummary) \<rparr>)"


definition succeed :: "Args \<Rightarrow> string \<Rightarrow> Formatted \<Rightarrow> Result" where
  "succeed args contentToSummarize formattedSummary =
     \<lparr> success = True,
       output = Some (content formattedSummary),
       error = None,
       data = Some
         \<lparr> data_mode = with_default ''auto'' (arg_mode args),
           data_format = with_default ''markdown'' (arg_format args),
           abstractionLevel = with_default 3 (arg_abstraction_level args),
           originalLength = length contentToSummarize,
           summaryLength = length (content formattedSummary),
           compressionRatio = compression (length (content formattedSummary))
                                (length contentToSummarize),
           data_source = (if truthy (arg_file args)
                          then ''file: '' @ with_default [] (arg_file args) else ''text input''),
           data_method = ''pattern-based'',
           data_metadata = metadata formattedSummary \<rparr> \<rparr>"

text \<open>The three checks at the beginning of \<^verbatim>\<open>execute\<close>: the error message, if one fails.\<close>

definition validate :: "Args \<Rightarrow> string option" where
  "validate args =
     (let abstraction_level = with_default 3 (arg_abstraction_level args)
      in if \<not> truthy (arg_text args) \<and> \<not> truthy (arg_file args)
         then Some ''Either text or file parameter must be provided''
         else if truthy (arg_text args) \<and> truthy (arg_file args)
         then Some ''Cannot provide both text and file parameters''
         else if abstraction_level < 1 \<or> 5 < abstraction_level
         then Some ''Abstraction level must be between 1 (very concrete) and 5 (very abstract)''
         else None)"

text \<open>
  The content to summarize, or the error message of the failed read. The file system \<open>fs\<close>
  answers for the path argument (resolved against the working directory).
\<close>

definition load :: "(string \<Rightarrow> file_outcome) \<Rightarrow> Args \<Rightarrow> string + string" where
  "load fs args =
     (if truthy (arg_file args)
      then (case fs (with_default [] (arg_file args)) of
              Missing \<Rightarrow> Inl (''File not found: '' @ with_default [] (arg_file args))
            | ReadFailure msg \<Rightarrow> Inl (''Failed to read file: '' @ msg)
            | Contents c \<Rightarrow> Inr c)
      else Inr (with_default [] (arg_text args)))"

text \<open>\<^verbatim>\<open>execute\<close>; the clock is read by \<^verbatim>\<open>formatOutput\<close>.\<close>

definition execute :: "(string \<Rightarrow> file_outcome) \<Rightarrow> Clock \<Rightarrow> Args \<Rightarrow> Result" where
  "execute fs clock args =
     (case validate args of
        Some msg \<Rightarrow> failure msg
      | None \<Rightarrow>
          (case load fs args of
             Inl msg \<Rightarrow> failure msg
           | Inr contentToSummarize \<Rightarrow>
               succeed args contentToSummarize
                 (finish clock args (summarize args contentToSummarize))))"

subsection \<open>Sample inputs\<close>

text \<open>The argument object \<^verbatim>\<open>{}\<close>, a file system and a clock for the concrete examples below.\<close>

definition no_args :: Args where
  "no_args =
     \<lparr> arg_text = None, arg_file = None, arg_mode = None, arg_format = None,
       arg_instructions = None, arg_max_length = None, arg_language = None,
       arg_include_quotes = None, arg_include_stats = None, arg_focus = None,
       arg_abstraction_level = None \<rparr>"

definition sample_fs :: "string \<Rightarrow> file_outcome" where
  "sample_fs path = (if path = ''empty.txt'' then Contents [] else Missing)"

definition sample_clock :: Clock where
  "sample_clock = \<lparr> isoString = ''2024-01-15T10:30:00.000Z'', localeDateString = ''1/15/2024'' \<rparr>"

section \<open>Properties of the word limiter\<close>






















section \<open>Properties of the focus filter\<close>

lemma split_on_not_Nil: "split_on d s \<noteq> []"
  by (induction s) (auto split: list.splits)

lemma split_on_free: "\<forall>l\<in>set (split_on d s). d \<notin> set l"
proof (induction s)
  case Nil
  then show ?case by simp
next
  case (Cons c cs)
  obtain l ls where "split_on d cs = l # ls"
    using split_on_not_Nil by (cases "split_on d cs") auto
  with Cons show ?case by auto
qed

lemma split_on_single: "d \<notin> set x \<Longrightarrow> split_on d x = [x]"
  by (induction x) auto

lemma split_on_sep: "d \<notin> set x \<Longrightarrow> split_on d (x @ d # rest) = x # split_on d rest"
  by (induction x) auto

lemma split_on_join:
  "ls \<noteq> [] \<Longrightarrow> \<forall>l\<in>set ls. d \<notin> set l \<Longrightarrow> split_on d (join [d] ls) = ls"
proof (induction ls)
  case Nil
  then show ?case by simp
next
  case (Cons x ls)
  show ?case
  proof (cases ls)
    case Nil
    with Cons.prems show ?thesis by (simp add: split_on_single)
  next
    case (Cons y ys)
    with Cons.IH Cons.prems show ?thesis by (simp add: split_on_sep)
  qed
qed

lemma lower_table_pairs: "lower_table = zip spec_capitals spec_smalls"
  by (simp add: lower_table_def spec_capitals_def spec_smalls_def)

lemma lower_table_keys: "distinct (map fst lower_table)"
  by code_simp

lemma lower_table_values: "distinct (map snd lower_table)"
  by code_simp

lemma lower_table_disjoint: "list_all (\<lambda>l. l \<notin> set (map fst lower_table)) (map snd lower_table)"
  by code_simp

lemma toLowerChar_same_letter: "(toLowerChar c = toLowerChar d) = same_letter c d"
proof
  assume eq: "toLowerChar c = toLowerChar d"
  show "same_letter c d"
  proof (cases "map_of lower_table c")
    case None
    note nc = this
    show ?thesis
    proof (cases "map_of lower_table d")
      case None
      with nc eq show ?thesis by (simp add: toLowerChar_def same_letter_def)
    next
      case (Some l)
      with nc eq have "c = l" by (simp add: toLowerChar_def)
      with Some have "(d, c) \<in> set lower_table" by (simp add: map_of_SomeD)
      then show ?thesis by (simp add: same_letter_def lower_table_pairs)
    qed
  next
    case (Some l)
    note sc = this
    then have cl: "(c, l) \<in> set lower_table" by (rule map_of_SomeD)
    show ?thesis
    proof (cases "map_of lower_table d")
      case None
      with sc eq have "l = d" by (simp add: toLowerChar_def)
      with cl show ?thesis by (simp add: same_letter_def lower_table_pairs)
    next
      case (Some l')
      with sc eq have "l' = l" by (simp add: toLowerChar_def)
      with Some have dl: "(d, l) \<in> set lower_table" by (simp add: map_of_SomeD)
      have "inj_on snd (set lower_table)"
        using lower_table_values by (simp add: distinct_map)
      from inj_onD[OF this _ cl dl] have "c = d" by simp
      then show ?thesis by (simp add: same_letter_def)
    qed
  qed
next
  assume "same_letter c d"
  then consider "c = d" | "(c, d) \<in> set lower_table" | "(d, c) \<in> set lower_table"
    by (auto simp: same_letter_def lower_table_pairs)
  then show "toLowerChar c = toLowerChar d"
  proof cases
    case 1
    then show ?thesis by simp
  next
    case 2
    then have "map_of lower_table c = Some d"
      using lower_table_keys by (simp add: map_of_is_SomeI)
    moreover have "d \<notin> set (map fst lower_table)"
      using 2 lower_table_disjoint by (force simp: list_all_iff)
    then have "map_of lower_table d = None" by (simp add: map_of_eq_None_iff)
    ultimately show ?thesis by (simp add: toLowerChar_def)
  next
    case 3
    then have "map_of lower_table d = Some c"
      using lower_table_keys by (simp add: map_of_is_SomeI)
    moreover have "c \<notin> set (map fst lower_table)"
      using 3 lower_table_disjoint by (force simp: list_all_iff)
    then have "map_of lower_table c = None" by (simp add: map_of_eq_None_iff)
    ultimately show ?thesis by (simp add: toLowerChar_def)
  qed
qed

lemma toLowerCase_same_letters: "(toLowerCase xs = toLowerCase ys) = list_all2 same_letter xs ys"
proof (induction xs arbitrary: ys)
  case Nil
  show ?case by (simp add: toLowerCase_def)
next
  case (Cons x xs)
  show ?case
  proof (cases ys)
    case Nil
    then show ?thesis by (simp add: toLowerCase_def)
  next
    case (Cons y zs)
    have "(toLowerCase (x # xs) = toLowerCase (y # zs)) =
          (toLowerChar x = toLowerChar y \<and> toLowerCase xs = toLowerCase zs)"
      by (simp add: toLowerCase_def)
    also have "\<dots> = (same_letter x y \<and> list_all2 same_letter xs zs)"
      by (simp only: toLowerChar_same_letter Cons.IH)
    finally show ?thesis using Cons by simp
  qed
qed

lemma startsWith_take: "startsWith s p = (take (length p) s = p)"
  by (induction s p rule: startsWith.induct) auto

lemma includes_str_suffixes: "includes_str s sub = list_ex (\<lambda>rest. startsWith rest sub) (suffixes s)"
proof (induction s)
  case Nil
  then show ?case by (cases sub) simp_all
next
  case (Cons c cs)
  then show ?case by (auto simp: list_ex_iff)
qed

lemma suffixes_toLowerCase: "suffixes (toLowerCase s) = map toLowerCase (suffixes s)"
  by (induction s) (simp_all add: toLowerCase_def)

lemma length_toLowerCase: "length (toLowerCase s) = length s"
  by (simp add: toLowerCase_def)

lemma take_toLowerCase: "take n (toLowerCase s) = toLowerCase (take n s)"
  by (simp add: toLowerCase_def take_map)

lemma keeps_spec:
  "keeps (toLowerCase focus) line = (spec_contains_ignoring_case line focus \<or> length line < 50)"
proof -
  have "startsWith (toLowerCase rest) (toLowerCase focus) =
        list_all2 same_letter (take (length focus) rest) focus" for rest
    unfolding startsWith_take length_toLowerCase take_toLowerCase toLowerCase_same_letters ..
  then show ?thesis
    by (simp add: keeps_def spec_contains_ignoring_case_def includes_str_suffixes
        suffixes_toLowerCase list_ex_iff)
qed

text \<open>
  Claim C5. For every summary and focus term, \<open>applyFocusFilter\<close> keeps exactly the lines that
  contain the focus term, ignoring case, or are shorter than 50 characters; when fewer than
  half of the lines are kept it returns the summary unchanged. So the result never has fewer
  than \<open>\<lceil>n / 2\<rceil>\<close> lines, \<open>n\<close> being the number of lines of the summary. The lines are the
  pieces of \<^verbatim>\<open>split('\n')\<close>, and containing the term ignoring case is
  \<^const>\<open>spec_contains_ignoring_case\<close>.
\<close>

theorem applyFocusFilter_lines:
  "(2 * length (filter (\<lambda>line. spec_contains_ignoring_case line focus \<or> length line < 50)
                  (split_on newline summary)) < length (split_on newline summary)
      \<longrightarrow> applyFocusFilter summary focus analysis = summary) \<and>
   (length (split_on newline summary)
      \<le> 2 * length (filter (\<lambda>line. spec_contains_ignoring_case line focus \<or> length line < 50)
                      (split_on newline summary))
      \<longrightarrow> split_on newline (applyFocusFilter summary focus analysis) =
           filter (\<lambda>line. spec_contains_ignoring_case line focus \<or> length line < 50)
             (split_on newline summary)) \<and>
   (length (split_on newline summary) + 1) div 2
      \<le> length (split_on newline (applyFocusFilter summary focus analysis))"
proof -
  let ?lines = "split_on newline summary"
  let ?kept = "filter (keeps (toLowerCase focus)) ?lines"
  have spec: "(\<lambda>line. spec_contains_ignoring_case line focus \<or> length line < 50) =
              keeps (toLowerCase focus)"
    by (rule ext) (simp add: keeps_spec)
  have fallback: "2 * length ?kept < length ?lines \<Longrightarrow> applyFocusFilter summary focus analysis = summary"
    by (simp add: applyFocusFilter_def Let_def)
  have filtered: "split_on newline (applyFocusFilter summary focus analysis) = ?kept"
    if h: "length ?lines \<le> 2 * length ?kept"
  proof -
    have "?lines \<noteq> []" by (rule split_on_not_Nil)
    with h have ne: "?kept \<noteq> []" by (cases "?kept") auto
    have "\<forall>l\<in>set ?kept. newline \<notin> set l" using split_on_free by auto
    with ne have "split_on newline (join [newline] ?kept) = ?kept" by (rule split_on_join)
    moreover have "applyFocusFilter summary focus analysis = join [newline] ?kept"
      using h by (simp add: applyFocusFilter_def Let_def)
    ultimately show ?thesis by simp
  qed
  have "(length ?lines + 1) div 2 \<le> length (split_on newline (applyFocusFilter summary focus analysis))"
  proof (cases "2 * length ?kept < length ?lines")
    case True
    with fallback show ?thesis by simp
  next
    case False
    then have "length ?lines \<le> 2 * length ?kept" by simp
    with filtered show ?thesis by simp
  qed
  with fallback filtered show ?thesis unfolding spec by blast
qed

theorem applyFocusFilter_lines_witness:
  "split_on newline (applyFocusFilter
     (''TESTING comes first in every project that the team has ever delivered'' @ [newline] @
      ''a line of more than fifty characters that has no match at all'' @ [newline] @ ''short'')
     ''Test'' (analyzeContent [])) =
     [''TESTING comes first in every project that the team has ever delivered'', ''short''] \<and>
   applyFocusFilter
     (''a line of more than fifty characters that has no match at all'' @ [newline] @
      ''another line of more than fifty characters without any match'' @ [newline] @ ''short'')
     ''Test'' (analyzeContent []) =
     ''a line of more than fifty characters that has no match at all'' @ [newline] @
     ''another line of more than fifty characters without any match'' @ [newline] @ ''short''"
proof -
  let ?hit = "''TESTING comes first in every project that the team has ever delivered''"
  let ?long = "''a line of more than fifty characters that has no match at all''"
  let ?long2 = "''another line of more than fifty characters without any match''"
  let ?s1 = "?hit @ [newline] @ ?long @ [newline] @ ''short''"
  let ?s2 = "?long @ [newline] @ ?long2 @ [newline] @ ''short''"
  let ?k = "\<lambda>line. spec_contains_ignoring_case line ''Test'' \<or> length line < 50"
  have l1: "split_on newline ?s1 = [?hit, ?long, ''short'']"
    by (simp add: newline_def)
  have l2: "split_on newline ?s2 = [?long, ?long2, ''short'']"
    by (simp add: newline_def)
  have c: "keeps (toLowerCase ''Test'') ?hit" "\<not> keeps (toLowerCase ''Test'') ?long"
    "keeps (toLowerCase ''Test'') ''short''" "\<not> keeps (toLowerCase ''Test'') ?long2"
    "\<not> length ?hit < 50"
    by code_simp+
  have k: "?k ?hit" "\<not> ?k ?long" "?k ''short''" "\<not> ?k ?long2"
    using c(1-4) unfolding keeps_spec by blast+
  have f1: "filter ?k [?hit, ?long, ''short''] = [?hit, ''short'']"
    using k by simp
  have f2: "filter ?k [?long, ?long2, ''short''] = [''short'']"
    using k by simp
  have h1: "length (split_on newline ?s1) \<le> 2 * length (filter ?k (split_on newline ?s1))"
    unfolding l1 f1 by simp
  have h2: "2 * length (filter ?k (split_on newline ?s2)) < length (split_on newline ?s2)"
    unfolding l2 f2 by simp
  from applyFocusFilter_lines[of "''Test''" ?s1 "analyzeContent []"] h1
  have "split_on newline (applyFocusFilter ?s1 ''Test'' (analyzeContent [])) =
        filter ?k (split_on newline ?s1)"
    by blast
  then have a: "split_on newline (applyFocusFilter ?s1 ''Test'' (analyzeContent [])) =
        [?hit, ''short'']"
    unfolding l1 f1 .
  from applyFocusFilter_lines[of "''Test''" ?s2 "analyzeContent []"] h2
  have b: "applyFocusFilter ?s2 ''Test'' (analyzeContent []) = ?s2"
    by blast
  from a b show ?thesis by blast
qed

section \<open>Properties of the quote extractor\<close>




section \<open>Properties of the pros and cons list\<close>

lemma classify_foldl:
  "foldl classify_step (ps, cs) ss =
     (ps @ map trim (filter (test_i positive_terms) ss),
      cs @ map trim (filter (\<lambda>s. \<not> test_i positive_terms s \<and> test_i negative_terms s) ss))"
  by (induction ss arbitrary: ps cs) (simp_all add: classify_step_def)

text \<open>
  Claim C7. The classification of \<open>generateProsConsList\<close> is exclusive, the positive terms being
  tried first: the pros are the sentences that match a positive term (also those that match a
  negative term as well), the cons are the sentences that match a negative term and no positive
  one, and a sentence that matches neither is in no list; both lists keep the order of the
  text and hold the trimmed sentences. On the text of scenario 2 the first sentence is the
  bullet under \<open>Pros\<close> and the second the bullet under \<open>Cons\<close>.
\<close>

theorem generateProsConsList_exclusive:
  "classify ss =
     (map trim (filter (test_i positive_terms) ss),
      map trim (filter (\<lambda>s. \<not> test_i positive_terms s \<and> test_i negative_terms s) ss)) \<and>
   generateProsConsList analysis =
     ''**Pros:**'' @ [newline] @
     bullets (take 5 (map trim (filter (test_i positive_terms) (sentences analysis)))) @
     [newline, newline] @ ''**Cons:**'' @ [newline] @
     bullets (take 5 (map trim (filter (\<lambda>s. \<not> test_i positive_terms s \<and> test_i negative_terms s)
                                  (sentences analysis)))) \<and>
   classify [''A disadvantage and a problem.'', ''Nothing to see.'', ''One issue.''] =
     ([''A disadvantage and a problem.''], [''One issue.'']) \<and>
   generateProsConsList (analyzeContent
      ''This approach offers significant benefit. However, there is a major drawback.'') =
     ''**Pros:**'' @ [newline] @ [bullet] @ '' This approach offers significant benefit.'' @
     [newline, newline] @
     ''**Cons:**'' @ [newline] @ [bullet] @ '' However, there is a major drawback.''"
proof -
  have c: "classify xs =
     (map trim (filter (test_i positive_terms) xs),
      map trim (filter (\<lambda>s. \<not> test_i positive_terms s \<and> test_i negative_terms s) xs))" for xs
    by (simp add: classify_def classify_foldl)
  have g: "generateProsConsList a =
     ''**Pros:**'' @ [newline] @
     bullets (take 5 (map trim (filter (test_i positive_terms) (sentences a)))) @
     [newline, newline] @ ''**Cons:**'' @ [newline] @
     bullets (take 5 (map trim (filter (\<lambda>s. \<not> test_i positive_terms s \<and> test_i negative_terms s)
                                  (sentences a))))" for a
    by (simp add: generateProsConsList_def c Let_def)
  have e1: "classify [''A disadvantage and a problem.'', ''Nothing to see.'', ''One issue.''] =
     ([''A disadvantage and a problem.''], [''One issue.''])"
  proof -
    have "test_i positive_terms ''A disadvantage and a problem.''"
      "\<not> test_i positive_terms ''Nothing to see.''" "\<not> test_i negative_terms ''Nothing to see.''"
      "\<not> test_i positive_terms ''One issue.''" "test_i negative_terms ''One issue.''"
      by code_simp+
    then show ?thesis unfolding c by (simp add: trim_def is_space_def)
  qed
  have ss: "sentences (analyzeContent t) = split_sentences t" for t
    by (simp add: analyzeContent_def)
  have e2: "generateProsConsList (analyzeContent
      ''This approach offers significant benefit. However, there is a major drawback.'') =
     ''**Pros:**'' @ [newline] @ [bullet] @ '' This approach offers significant benefit.'' @
     [newline, newline] @
     ''**Cons:**'' @ [newline] @ [bullet] @ '' However, there is a major drawback.''"
  proof -
    have sp: "split_sentences
        ''This approach offers significant benefit. However, there is a major drawback.'' =
        [''This approach offers significant benefit.'', '' However, there is a major drawback.'']"
      by code_simp
    have t: "test_i positive_terms ''This approach offers significant benefit.''"
      "\<not> test_i positive_terms '' However, there is a major drawback.''"
      "test_i negative_terms '' However, there is a major drawback.''"
      by code_simp+
    have tr: "trim ''This approach offers significant benefit.'' = ''This approach offers significant benefit.''"
      "trim '' However, there is a major drawback.'' = ''However, there is a major drawback.''"
      by code_simp+
    show ?thesis unfolding g ss sp using t tr by (simp add: bullets_def)
  qed
  from c g e1 e2 show ?thesis by blast
qed

section \<open>Properties of the quote appendix\<close>

text \<open>
  Claim C10. For every summary and every list of quotes, \<open>appendQuotes\<close> returns the summary
  unchanged when the format is neither \<open>markdown\<close> nor \<open>plain\<close>. So in the formats \<open>json\<close>,
  \<open>html\<close> and \<open>outline\<close> (and any other) the result of \<open>execute\<close> with \<open>include_quotes\<close> set
  is the result without it, whatever quotes qualify.
\<close>

theorem appendQuotes_other_formats:
  assumes "format \<noteq> ''markdown''" and "format \<noteq> ''plain''"
  shows "appendQuotes summary quotes format = summary \<and>
         execute fs clock (args \<lparr> arg_format := Some format, arg_include_quotes := Some True \<rparr>) =
         execute fs clock (args \<lparr> arg_format := Some format, arg_include_quotes := flag \<rparr>)"
proof -
  have a: "appendQuotes s q format = s" for s q
    using assms by (simp add: appendQuotes_def)
  have s: "summarize (args \<lparr> arg_format := Some format, arg_include_quotes := Some True \<rparr>) c =
           summarize (args \<lparr> arg_format := Some format, arg_include_quotes := flag \<rparr>) c" for c
    by (simp add: summarize_def with_default_def a Let_def)
  have f: "finish clock (args \<lparr> arg_format := Some format, arg_include_quotes := Some True \<rparr>) x =
           finish clock (args \<lparr> arg_format := Some format, arg_include_quotes := flag \<rparr>) x" for x
    by (simp add: finish_def apply_max_length_def cong: if_cong)
  have u: "succeed (args \<lparr> arg_format := Some format, arg_include_quotes := Some True \<rparr>) c x =
           succeed (args \<lparr> arg_format := Some format, arg_include_quotes := flag \<rparr>) c x" for c x
    by (simp add: succeed_def)
  have v: "validate (args \<lparr> arg_format := Some format, arg_include_quotes := Some True \<rparr>) =
           validate (args \<lparr> arg_format := Some format, arg_include_quotes := flag \<rparr>)"
    by (simp add: validate_def cong: if_cong)
  have l: "load fs (args \<lparr> arg_format := Some format, arg_include_quotes := Some True \<rparr>) =
           load fs (args \<lparr> arg_format := Some format, arg_include_quotes := flag \<rparr>)"
    by (simp add: load_def cong: file_outcome.case_cong)
  have "execute fs clock (args \<lparr> arg_format := Some format, arg_include_quotes := Some True \<rparr>) =
        execute fs clock (args \<lparr> arg_format := Some format, arg_include_quotes := flag \<rparr>)"
    unfolding execute_def v l s f u ..
  with a show ?thesis by simp
qed


theorem appendQuotes_other_formats_witness:
  "appendQuotes ''The summary.'' [''A first quote.'', ''A second quote.''] ''json'' = ''The summary.'' \<and>
   execute sample_fs sample_clock
     (no_args \<lparr> arg_text := Some ''Some text.'', arg_format := Some ''json'', arg_include_quotes := Some True \<rparr>) =
   execute sample_fs sample_clock
     (no_args \<lparr> arg_text := Some ''Some text.'', arg_format := Some ''json'', arg_include_quotes := Some False \<rparr>)"
proof -
  have h: "''json'' \<noteq> ''markdown''" "''json'' \<noteq> ''plain''" by simp_all
  from appendQuotes_other_formats[OF h, of "''The summary.''" "[''A first quote.'', ''A second quote.'']"
      sample_fs sample_clock "no_args \<lparr> arg_text := Some ''Some text.'' \<rparr>" "Some False"]
  show ?thesis by simp
qed

section \<open>Properties of the validation\<close>

text \<open>
  Claim C2. If text and file are both absent, or both present, or the abstraction level is less
  than 1 or greater than 5, then \<open>execute\<close> returns a result with \<open>success = False\<close> and a
  non-empty error message, without output or data; the result does not depend on the file
  system or the clock, so nothing is read or analysed, and being a value it is no exception.
  An argument is present when it is given and not the empty string, which is what the
  conditions \<^verbatim>\<open>!text && !file\<close> and \<^verbatim>\<open>text && file\<close> of the code test.
\<close>

theorem execute_validation_errors:
  assumes "(\<not> truthy (arg_text args) \<and> \<not> truthy (arg_file args)) \<or>
           (truthy (arg_text args) \<and> truthy (arg_file args)) \<or>
           (\<exists>l. arg_abstraction_level args = Some l \<and> (l < 1 \<or> 5 < l))"
  shows "\<exists>msg. msg \<noteq> [] \<and>
           execute fs clock args =
             \<lparr> success = False, output = None, error = Some msg, data = None \<rparr> \<and>
           execute fs' clock' args = execute fs clock args"
proof -
  from assms have "\<exists>msg. msg \<noteq> [] \<and> validate args = Some msg"
    by (auto simp: validate_def with_default_def Let_def)
  then obtain msg where "msg \<noteq> []" "validate args = Some msg" by blast
  then show ?thesis by (auto simp: execute_def failure_def)
qed

theorem execute_validation_errors_witness:
  "execute sample_fs sample_clock (no_args \<lparr> arg_text := Some ''Some text.'', arg_abstraction_level := Some 6 \<rparr>) =
     \<lparr> success = False, output = None,
       error = Some ''Abstraction level must be between 1 (very concrete) and 5 (very abstract)'',
       data = None \<rparr> \<and>
   success (execute sample_fs sample_clock no_args) = False \<and>
   success (execute sample_fs sample_clock
      (no_args \<lparr> arg_text := Some ''Some text.'', arg_file := Some ''empty.txt'' \<rparr>)) = False"
proof -
  let ?a = "no_args \<lparr> arg_text := Some ''Some text.'', arg_abstraction_level := Some 6 \<rparr>"
  let ?b = "no_args \<lparr> arg_text := Some ''Some text.'', arg_file := Some ''empty.txt'' \<rparr>"
  have ha: "\<exists>l. arg_abstraction_level ?a = Some l \<and> (l < 1 \<or> 5 < l)" by simp
  have hn: "\<not> truthy (arg_text no_args) \<and> \<not> truthy (arg_file no_args)"
    by (simp add: no_args_def truthy_def)
  have hb: "truthy (arg_text ?b) \<and> truthy (arg_file ?b)" by (simp add: truthy_def)
  from execute_validation_errors[of ?a sample_fs sample_clock sample_fs sample_clock] ha
  obtain msg where "execute sample_fs sample_clock ?a =
      \<lparr> success = False, output = None, error = Some msg, data = None \<rparr>" by blast
  moreover have "error (execute sample_fs sample_clock ?a) =
      Some ''Abstraction level must be between 1 (very concrete) and 5 (very abstract)''"
    by (simp add: execute_def validate_def failure_def truthy_def with_default_def no_args_def)
  ultimately have a: "execute sample_fs sample_clock ?a =
     \<lparr> success = False, output = None,
       error = Some ''Abstraction level must be between 1 (very concrete) and 5 (very abstract)'',
       data = None \<rparr>" by simp
  from execute_validation_errors[of no_args sample_fs sample_clock sample_fs sample_clock] hn
  have n: "success (execute sample_fs sample_clock no_args) = False" by auto
  from execute_validation_errors[of ?b sample_fs sample_clock sample_fs sample_clock] hb
  have b: "success (execute sample_fs sample_clock ?b) = False" by auto
  from a n b show ?thesis by blast
qed

section \<open>Determinism of the pipeline\<close>






section \<open>The compression ratio\<close>

lemma compression_29_12: "compression 29 12 = Num (- 142)"
  by (simp add: compression_def js_round_def times100_def one_minus_def fl_def fl_pos_def
      scale_def round_half_even_def bit_length.simps Let_def)

lemma compression_3_2: "compression 3 2 = Num (- 50)"
  by (simp add: compression_def js_round_def times100_def one_minus_def fl_def fl_pos_def
      scale_def round_half_even_def bit_length.simps Let_def)

lemma execute_succeeds:
  "validate args = None \<Longrightarrow> load fs args = Inr c \<Longrightarrow>
   execute fs clock args = succeed args c (finish clock args (summarize args c))"
  by (simp add: execute_def)

lemma hello_execute:
  "execute sample_fs sample_clock (no_args \<lparr> arg_text := Some ''Hello world.'' \<rparr>) =
   succeed (no_args \<lparr> arg_text := Some ''Hello world.'' \<rparr>) ''Hello world.''
     \<lparr> content = ''**Introduction**'' @ [newline] @ ''Hello world.'', metadata = ''markdown'' \<rparr>"
proof -
  let ?a = "no_args \<lparr> arg_text := Some ''Hello world.'' \<rparr>"
  have va: "validate ?a = None" and la: "load sample_fs ?a = Inr ''Hello world.''"
    by (simp_all add: validate_def load_def no_args_def truthy_def with_default_def)
  have sa: "summarize ?a ''Hello world.'' = ''**Introduction**'' @ [newline] @ ''Hello world.''"
    by code_simp
  have fa: "finish sample_clock ?a x = \<lparr> content = x, metadata = ''markdown'' \<rparr>" for x
    by (simp add: finish_def formatOutput_def apply_max_length_def no_args_def with_default_def)
  show ?thesis
    unfolding execute_succeeds[OF va la] sa fa ..
qed

text \<open>
  Claim C1 states the ratio over word counts and with a guard for an empty original. The code
  divides the character counts: on the text \<open>Hello world.\<close> (2 words, 12 characters) the
  summary has 3 words and 29 characters, the stated formula gives -50 and the code returns
  -142. The code has no guard either: for an empty file the value is \<open>NaN\<close>.
\<close>

theorem compressionRatio_counterexample:
  "output (execute sample_fs sample_clock (no_args \<lparr> arg_text := Some ''Hello world.'' \<rparr>)) =
     Some (''**Introduction**'' @ [newline] @ ''Hello world.'') \<and>
   map_option compressionRatio
     (data (execute sample_fs sample_clock (no_args \<lparr> arg_text := Some ''Hello world.'' \<rparr>))) =
     Some (Num (- 142)) \<and>
   spec_compressionRatio (''**Introduction**'' @ [newline] @ ''Hello world.'') ''Hello world.'' =
     Num (- 50) \<and>
   map_option compressionRatio
     (data (execute sample_fs sample_clock (no_args \<lparr> arg_file := Some ''empty.txt'' \<rparr>))) =
     Some NaN"
proof -
  let ?a = "no_args \<lparr> arg_text := Some ''Hello world.'' \<rparr>"
  let ?b = "no_args \<lparr> arg_file := Some ''empty.txt'' \<rparr>"
  let ?s = "''**Introduction**'' @ [newline] @ ''Hello world.''"
  have vb: "validate ?b = None" and lb: "load sample_fs ?b = Inr []"
    by (simp_all add: validate_def load_def no_args_def truthy_def with_default_def sample_fs_def)
  have sb: "summarize ?b [] = []"
    by code_simp
  have fb: "finish sample_clock ?b x = \<lparr> content = x, metadata = ''markdown'' \<rparr>" for x
    by (simp add: finish_def formatOutput_def apply_max_length_def no_args_def with_default_def)
  note ea = hello_execute
  have eb: "execute sample_fs sample_clock ?b =
            succeed ?b [] \<lparr> content = [], metadata = ''markdown'' \<rparr>"
    unfolding execute_succeeds[OF vb lb] sb fb ..
  have w1: "spec_wordCount ?s = 3" and w2: "spec_wordCount ''Hello world.'' = 2"
    by code_simp+
  have cr: "map_option compressionRatio (data (succeed x t f)) =
            Some (compression (length (content f)) (length t))" for x t f
    by (simp add: succeed_def)
  have len: "length (content \<lparr> content = ?s, metadata = ''markdown'' \<rparr>) = 29"
    "length ''Hello world.'' = 12"
    "length (content \<lparr> content = [], metadata = ''markdown'' \<rparr>) = 0"
    "length ([] :: string) = 0"
    by simp_all
  have nan: "compression 0 0 = NaN"
    by (simp add: compression_def)
  have "output (execute sample_fs sample_clock ?a) = Some ?s"
    unfolding ea by (simp add: succeed_def)
  moreover have "map_option compressionRatio (data (execute sample_fs sample_clock ?a)) =
      Some (Num (- 142))"
    unfolding ea cr len compression_29_12 ..
  moreover have "spec_compressionRatio ?s ''Hello world.'' = Num (- 50)"
    unfolding spec_compressionRatio_def w1 w2 by (simp add: compression_3_2)
  moreover have "map_option compressionRatio (data (execute sample_fs sample_clock ?b)) = Some NaN"
    unfolding eb cr len nan ..
  ultimately show ?thesis by blast
qed

text \<open>
  Claim C1, amended. For every invocation that returns data for a non-empty content, the
  \<open>compressionRatio\<close> of the data is the finite number
  \<^verbatim>\<open>Math.round((1 - summaryLength / originalLength) * 100)\<close>, where \<open>summaryLength\<close> is the
  number of characters of the output and \<open>originalLength\<close> is the number of characters of the
  content to summarize (not their numbers of words). When neither a non-empty text nor a file
  is given, as with the empty text, the invocation fails in the validation and returns no
  data at all.
\<close>

theorem compressionRatio_by_length:
  "(data (execute fs clock args) = Some d \<and> 0 < originalLength d \<longrightarrow>
      (\<exists>out c. output (execute fs clock args) = Some out \<and> load fs args = Inr c \<and>
         summaryLength d = length out \<and> originalLength d = length c \<and>
         compressionRatio d =
           Num (js_round (times100 (one_minus (fl (int (length out)) (int (length c)))))))) \<and>
   (\<not> truthy (arg_text args) \<and> \<not> truthy (arg_file args) \<longrightarrow>
      execute fs clock args = failure ''Either text or file parameter must be provided'')"
proof (intro conjI impI)
  assume "\<not> truthy (arg_text args) \<and> \<not> truthy (arg_file args)"
  then show "execute fs clock args = failure ''Either text or file parameter must be provided''"
    by (simp add: execute_def validate_def)
next
  assume h: "data (execute fs clock args) = Some d \<and> 0 < originalLength d"
  show "\<exists>out c. output (execute fs clock args) = Some out \<and> load fs args = Inr c \<and>
         summaryLength d = length out \<and> originalLength d = length c \<and>
         compressionRatio d =
           Num (js_round (times100 (one_minus (fl (int (length out)) (int (length c))))))"
  proof (cases "validate args")
    case (Some msg)
    with h show ?thesis by (simp add: execute_def failure_def)
  next
    case None
    show ?thesis
    proof (cases "load fs args")
      case (Inl msg)
      with None h show ?thesis by (simp add: execute_def failure_def)
    next
      case (Inr c)
      let ?f = "finish clock args (summarize args c)"
      have e: "execute fs clock args = succeed args c ?f"
        using None Inr by (rule execute_succeeds)
      with h have d: "d = the (data (succeed args c ?f))" by simp
      have "0 < length c" using h unfolding d by (simp add: succeed_def)
      then have "compressionRatio d =
          Num (js_round (times100 (one_minus (fl (int (length (content ?f))) (int (length c))))))"
        unfolding d by (simp add: succeed_def compression_def)
      moreover have "summaryLength d = length (content ?f)" "originalLength d = length c"
        unfolding d by (simp_all add: succeed_def)
      moreover have "output (execute fs clock args) = Some (content ?f)"
        unfolding e by (simp add: succeed_def)
      ultimately show ?thesis using Inr by blast
    qed
  qed
qed

theorem compressionRatio_by_length_witness:
  "map_option compressionRatio
     (data (execute sample_fs sample_clock (no_args \<lparr> arg_text := Some ''Hello world.'' \<rparr>))) =
     Some (Num (js_round (times100 (one_minus (fl 29 12))))) \<and>
   execute sample_fs sample_clock (no_args \<lparr> arg_text := Some [] \<rparr>) =
     failure ''Either text or file parameter must be provided''"
proof -
  let ?a = "no_args \<lparr> arg_text := Some ''Hello world.'' \<rparr>"
  let ?e = "no_args \<lparr> arg_text := Some [] \<rparr>"
  let ?s = "''**Introduction**'' @ [newline] @ ''Hello world.''"
  note ea = hello_execute
  have la: "load sample_fs ?a = Inr ''Hello world.''"
    by (simp add: load_def no_args_def truthy_def with_default_def)
  obtain d where d: "data (execute sample_fs sample_clock ?a) = Some d" "originalLength d = 12"
    unfolding ea by (simp add: succeed_def)
  have o: "output (execute sample_fs sample_clock ?a) = Some ?s"
    unfolding ea by (simp add: succeed_def)
  from compressionRatio_by_length[of sample_fs sample_clock ?a d] d la o
  have "compressionRatio d = Num (js_round (times100 (one_minus (fl 29 12))))"
    by auto
  with d have a: "map_option compressionRatio (data (execute sample_fs sample_clock ?a)) =
     Some (Num (js_round (times100 (one_minus (fl 29 12)))))" by simp
  have "\<not> truthy (arg_text ?e) \<and> \<not> truthy (arg_file ?e)"
    by (simp add: truthy_def no_args_def)
  with compressionRatio_by_length[of sample_fs sample_clock ?e]
  have "execute sample_fs sample_clock ?e =
     failure ''Either text or file parameter must be provided''" by blast
  with a show ?thesis by blast
qed

section \<open>Key points of repeated sentences\<close>

lemma analysis_fields:
  "sentences (analyzeContent t) = split_sentences t"
  "keywords (analyzeContent t) = extractKeywords t"
  by (simp_all add: analyzeContent_def)

lemma indexOf_nth: "distinct xs \<Longrightarrow> i < length xs \<Longrightarrow> indexOf xs (xs ! i) = int i"
proof (induction xs arbitrary: i)
  case Nil
  then show ?case by simp
next
  case (Cons y ys)
  show ?case
  proof (cases i)
    case 0
    then show ?thesis by simp
  next
    case (Suc j)
    with Cons.prems have j: "j < length ys" "distinct ys" "y \<noteq> ys ! j" by auto
    with Cons.IH have "indexOf ys (ys ! j) = int j" by simp
    with Suc j show ?thesis by (simp add: Let_def)
  qed
qed

lemma foldl_score:
  "foldl (\<lambda>score (keyword, count). if P keyword then score + g count else score) s kws =
   s + sum_list (map (\<lambda>(keyword, count). if P keyword then g count else (0::int)) kws)"
  by (induction kws arbitrary: s) (auto split: prod.splits)

lemma includes_str_empty: "includes_str s []"
  by (cases s) simp_all

lemma sentence_score_position:
  assumes "\<forall>(k, c)\<in>set (keywords a). toLowerCase k = k"
    and "indexOf (sentences a) s = int i"
  shows "sentence_score a s = spec_sentence_score a s i"
proof -
  have m: "map (\<lambda>(keyword, count). if includes_str (toLowerCase s) keyword then min (int count) 3 else 0)
          (keywords a) =
        map (\<lambda>(keyword, count). if includes_str (toLowerCase s) (toLowerCase keyword)
                                  then min (int count) 3 else 0) (keywords a)"
    using assms(1) by (intro map_cong) auto
  show ?thesis
    using assms(2)
    unfolding sentence_score_def spec_sentence_score_def Let_def foldl_score m by simp
qed

lemma map_filter_zip:
  "length is = length xs \<Longrightarrow> \<forall>(s, i)\<in>set (zip xs is). g s i = h s \<Longrightarrow>
   map (\<lambda>(s, i). (s, g s i)) (filter (\<lambda>(s, i). P s) (zip xs is)) =
   map (\<lambda>s. (s, h s)) (filter P xs)"
  by (induction "is" xs rule: list_induct2) auto

text \<open>
  Where no sentence is repeated (and the keywords are in lower case, as the analysis makes
  them), the position found by \<^verbatim>\<open>indexOf\<close> is the position of the sentence, and the code
  computes the key points of the specification.
\<close>

lemma extractKeyPoints_distinct_sentences:
  assumes "distinct (sentences a)" and "\<forall>(k, c)\<in>set (keywords a). toLowerCase k = k"
  shows "extractKeyPoints a n focus = spec_extractKeyPoints a n focus"
proof -
  let ?ss = "sentences a"
  let ?idx = "zip ?ss [0 ..< length ?ss]"
  have score: "\<forall>(s, i)\<in>set ?idx. spec_sentence_score a s i = sentence_score a s"
  proof (clarify)
    fix s i assume "(s, i) \<in> set ?idx"
    then have "i < length ?ss" "?ss ! i = s"
      by (auto simp: set_zip)
    with assms(1) have "indexOf ?ss s = int i" using indexOf_nth by blast
    with assms(2) show "spec_sentence_score a s i = sentence_score a s"
      using sentence_score_position by simp
  qed
  have eq: "map (\<lambda>(s, i). (s, spec_sentence_score a s i)) (filter (\<lambda>(s, i). P s) ?idx) =
            map (\<lambda>s. (s, sentence_score a s)) (filter P ?ss)" for P
    using score by (intro map_filter_zip) simp_all
  have all: "map (\<lambda>(s, i). (s, spec_sentence_score a s i)) ?idx =
             map (\<lambda>s. (s, sentence_score a s)) ?ss"
    using eq[of "\<lambda>_. True"] by simp
  show ?thesis
  proof (cases focus)
    case None
    then show ?thesis
      by (simp add: extractKeyPoints_def spec_extractKeyPoints_def Let_def all)
  next
    case (Some f)
    show ?thesis
    proof (cases "f = []")
      case True
      have "toLowerCase [] = []" by (simp add: toLowerCase_def)
      with Some True show ?thesis
        by (simp add: extractKeyPoints_def spec_extractKeyPoints_def Let_def all
            includes_str_empty)
    next
      case False
      with Some show ?thesis
        by (simp add: extractKeyPoints_def spec_extractKeyPoints_def Let_def eq)
    qed
  qed
qed

text \<open>
  Claim C3. The score of a candidate sentence has the parts stated in the claim, but the
  position bonus is computed with \<^verbatim>\<open>analysis.sentences.indexOf(sentence)\<close>, the position
  of the first sentence with the same text. In the text \<open>Go. Go. Go. Go. Go. No. Go.\<close> the
  seventh sentence has the text of the second one: it is at position 6 and scores 0 by the
  claim, after \<open>No.\<close> at position 5, and the code gives it the bonus and ranks it before \<open>No.\<close>.
\<close>

theorem extractKeyPoints_repeated_sentence:
  "split_sentences ''Go. Go. Go. Go. Go. No. Go.'' =
     [''Go.'', '' Go.'', '' Go.'', '' Go.'', '' Go.'', '' No.'', '' Go.''] \<and>
   extractKeywords ''Go. Go. Go. Go. Go. No. Go.'' = [] \<and>
   extractKeyPoints (analyzeContent ''Go. Go. Go. Go. Go. No. Go.'') 10 None =
     [''Go.'', ''Go.'', ''Go.'', ''Go.'', ''Go.'', ''Go.'', ''No.''] \<and>
   spec_extractKeyPoints (analyzeContent ''Go. Go. Go. Go. Go. No. Go.'') 10 None =
     [''Go.'', ''Go.'', ''Go.'', ''Go.'', ''Go.'', ''No.'', ''Go.'']"
proof -
  let ?t = "''Go. Go. Go. Go. Go. No. Go.''"
  have s: "split_sentences ?t = [''Go.'', '' Go.'', '' Go.'', '' Go.'', '' Go.'', '' No.'', '' Go.'']"
    by code_simp
  have k: "extractKeywords ?t = []"
    by code_simp
  have a: "extractKeyPoints (analyzeContent ?t) 10 None =
     [''Go.'', ''Go.'', ''Go.'', ''Go.'', ''Go.'', ''Go.'', ''No.'']"
    unfolding extractKeyPoints_def sentence_score_def analysis_fields s k by code_simp
  have b: "spec_extractKeyPoints (analyzeContent ?t) 10 None =
     [''Go.'', ''Go.'', ''Go.'', ''Go.'', ''Go.'', ''No.'', ''Go.'']"
    unfolding spec_extractKeyPoints_def spec_sentence_score_def analysis_fields s k by code_simp
  from s k a b show ?thesis by blast
qed

section \<open>Section titles and the introduction\<close>

lemma takeWhile_eq_replicate:
  "takeWhile (\<lambda>c. c = a) xs = replicate (length (takeWhile (\<lambda>c. c = a) xs)) a"
  by (induction xs) auto

lemma takeWhile_replicate_append:
  "w \<noteq> [] \<Longrightarrow> hd w \<noteq> a \<Longrightarrow> takeWhile (\<lambda>c. c = a) (replicate k a @ w) = replicate k a"
  by (induction k) (auto simp: neq_Nil_conv)

lemma hash_no_space: "\<not> is_space CHR ''#''"
  by (simp add: is_space_def)

lemma heading_title_iff:
  "heading_title line \<noteq> None \<longleftrightarrow>
   (\<exists>k w t. line = replicate k CHR ''#'' @ w @ t \<and> 1 \<le> k \<and> k \<le> 6 \<and>
            w \<noteq> [] \<and> (\<forall>c\<in>set w. is_space c) \<and> t \<noteq> [] \<and> (\<forall>c\<in>set t. dot c))"
  (is "?L \<longleftrightarrow> ?R")
proof
  let ?hs = "takeWhile (\<lambda>c. c = CHR ''#'') line"
  let ?h = "length ?hs"
  let ?r = "drop ?h line"
  let ?ws = "takeWhile is_space ?r"
  let ?t = "dropWhile is_space ?r"
  assume ?L
  then have h: "1 \<le> ?h" "?h \<le> 6" and ws: "?ws \<noteq> []"
    and cases: "(?t \<noteq> [] \<and> list_all dot ?t) \<or> (?t = [] \<and> 2 \<le> length ?ws \<and> dot (last ?ws))"
    by (auto simp: heading_title_def Let_def Suc_le_eq split: if_splits)
  have line: "line = replicate ?h CHR ''#'' @ ?ws @ ?t"
  proof -
    have "line = ?hs @ ?r" by (metis append_take_drop_id takeWhile_eq_take)
    moreover have "?hs = replicate ?h CHR ''#''" by (rule takeWhile_eq_replicate)
    moreover have "?r = ?ws @ ?t" by simp
    ultimately show ?thesis by metis
  qed
  have spaces: "\<forall>c\<in>set ?ws. is_space c" by (auto dest: set_takeWhileD)
  from cases show ?R
  proof
    assume a: "?t \<noteq> [] \<and> list_all dot ?t"
    then have "\<forall>c\<in>set ?t. dot c" by (simp add: list_all_iff)
    with line h ws spaces a show ?R by blast
  next
    assume b: "?t = [] \<and> 2 \<le> length ?ws \<and> dot (last ?ws)"
    then have bl: "butlast ?ws \<noteq> []" by (cases ?ws rule: rev_cases) auto
    have sp: "\<forall>c\<in>set (butlast ?ws). is_space c" using spaces by (auto dest: in_set_butlastD)
    have "?ws = butlast ?ws @ [last ?ws]" using ws by simp
    with line b have "line = replicate ?h CHR ''#'' @ butlast ?ws @ [last ?ws]" by simp
    moreover have "\<forall>c\<in>set [last ?ws]. dot c" using b by simp
    ultimately show ?R using h bl sp by blast
  qed
next
  assume ?R
  then obtain k w t where line: "line = replicate k CHR ''#'' @ w @ t"
    and k: "1 \<le> k" "k \<le> 6" and w: "w \<noteq> []" "\<forall>c\<in>set w. is_space c"
    and t: "t \<noteq> []" "\<forall>c\<in>set t. dot c" by blast
  have hdw: "hd (w @ t) \<noteq> CHR ''#''" using w hash_no_space by (cases w) auto
  have hs: "takeWhile (\<lambda>c. c = CHR ''#'') line = replicate k CHR ''#''"
    unfolding line using takeWhile_replicate_append[of "w @ t" "CHR ''#''" k] w hdw by simp
  then have h: "length (takeWhile (\<lambda>c. c = CHR ''#'') line) = k" by simp
  have r: "drop k line = w @ t" by (simp add: line)
  have ws: "takeWhile is_space (w @ t) = w @ takeWhile is_space t"
    using w by (simp add: takeWhile_append2)
  have dw: "dropWhile is_space (w @ t) = dropWhile is_space t"
    using w by (simp add: dropWhile_append2)
  show ?L
  proof (cases "dropWhile is_space t = []")
    case False
    have "list_all dot (dropWhile is_space t)"
      using t by (auto simp: list_all_iff dest: set_dropWhileD)
    with False k w show ?thesis
      by (simp add: heading_title_def Let_def h r ws dw)
  next
    case True
    then have all: "takeWhile is_space t = t" by (simp add: takeWhile_eq_all_conv dropWhile_eq_Nil_conv)
    have "2 \<le> length (w @ t)" using w t by (cases w; cases t) auto
    moreover have "dot (last (w @ t))" using t by simp
    ultimately show ?thesis using True k w
      by (simp add: heading_title_def Let_def h r ws dw all)
  qed
qed

lemma colon_title_iff:
  "colon_title line \<noteq> None \<longleftrightarrow>
   (\<exists>t. line = t @ '':'' \<and> t \<noteq> [] \<and> (\<forall>c\<in>set t. dot c))"
  (is "?L \<longleftrightarrow> ?R")
proof
  assume ?L
  then have c: "2 \<le> length line" "last line = CHR '':''" "list_all dot (butlast line)"
    by (auto simp: colon_title_def split: if_splits)
  then have "line \<noteq> []" by auto
  then have "line = butlast line @ [last line]" by simp
  with c have "line = butlast line @ '':''" by simp
  moreover have "butlast line \<noteq> []" using c by (cases line rule: rev_cases) auto
  moreover have "\<forall>c\<in>set (butlast line). dot c" using c by (simp add: list_all_iff)
  ultimately show ?R by blast
next
  assume ?R
  then obtain t where "line = t @ '':''" "t \<noteq> []" "\<forall>c\<in>set t. dot c" by blast
  then show ?L by (cases t) (auto simp: colon_title_def list_all_iff)
qed

lemma sectionMatch_None: "sectionMatch line = None \<longleftrightarrow> heading_title line = None \<and> colon_title line = None"
  by (simp add: sectionMatch_def split: option.split)


text \<open>The lines before the first title: they are collected under the current name.\<close>

lemma intro_phase:
  "\<forall>l\<in>set ls. sectionMatch l = None \<Longrightarrow>
   foldl section_step ((if acc = [] then [] else [(L, acc)]), L) ls =
     ((if acc @ filter (\<lambda>l. trim l \<noteq> []) ls = [] then []
       else [(L, acc @ filter (\<lambda>l. trim l \<noteq> []) ls)]), L)"
proof (induction ls arbitrary: acc)
  case Nil
  then show ?case by simp
next
  case (Cons l ls)
  have none: "sectionMatch l = None" using Cons.prems by simp
  show ?case
  proof (cases "trim l = []")
    case True
    with none have "section_step ((if acc = [] then [] else [(L, acc)]), L) l =
        ((if acc = [] then [] else [(L, acc)]), L)"
      by (simp add: section_step_def)
    with Cons True show ?thesis by simp
  next
    case False
    with none have "section_step ((if acc = [] then [] else [(L, acc)]), L) l =
        ((if acc @ [l] = [] then [] else [(L, acc @ [l])]), L)"
      by (simp add: section_step_def get_or_def)
    moreover have "foldl section_step ((if acc @ [l] = [] then [] else [(L, acc @ [l])]), L) ls =
        ((if (acc @ [l]) @ filter (\<lambda>l. trim l \<noteq> []) ls = [] then []
          else [(L, (acc @ [l]) @ filter (\<lambda>l. trim l \<noteq> []) ls)]), L)"
      using Cons.prems by (intro Cons.IH) simp
    ultimately show ?thesis using False by simp
  qed
qed

text \<open>After the first title the entry of another name is not touched any more.\<close>

lemma later_phase:
  "L \<noteq> I \<Longrightarrow> \<forall>l\<in>set ls. sectionMatch l \<noteq> Some I \<Longrightarrow>
   map_of (fst (foldl section_step (m, L) ls)) I = map_of m I"
proof (induction ls arbitrary: m L)
  case Nil
  then show ?case by simp
next
  case (Cons l ls)
  show ?case
  proof (cases "sectionMatch l")
    case (Some t)
    then have t: "t \<noteq> I" using Cons.prems by auto
    have "section_step (m, L) l = (AList.update t [] m, t)"
      using Some by (simp add: section_step_def)
    moreover have "map_of (fst (foldl section_step (AList.update t [] m, t) ls)) I =
        map_of (AList.update t [] m) I"
      using t Cons.prems by (intro Cons.IH) simp_all
    ultimately show ?thesis using t by (simp add: update_conv')
  next
    case None
    show ?thesis
    proof (cases "trim l = []")
      case True
      with None have "section_step (m, L) l = (m, L)" by (simp add: section_step_def)
      with Cons show ?thesis by simp
    next
      case False
      with None have "section_step (m, L) l = (AList.update L (get_or m L [] @ [l]) m, L)"
        by (simp add: section_step_def)
      moreover have "map_of (fst (foldl section_step (AList.update L (get_or m L [] @ [l]) m, L) ls)) I =
          map_of (AList.update L (get_or m L [] @ [l]) m) I"
        using Cons.prems by (intro Cons.IH) simp_all
      ultimately show ?thesis using Cons.prems(1) by (simp add: update_conv')
    qed
  qed
qed

lemma introduction_entry:
  assumes "\<forall>l\<in>set ls. sectionMatch l \<noteq> Some ''Introduction''"
  shows "map_of (fst (foldl section_step ([], ''Introduction'') ls)) ''Introduction'' =
     (if filter (\<lambda>l. trim l \<noteq> []) (takeWhile (\<lambda>l. sectionMatch l = None) ls) = [] then None
      else Some (filter (\<lambda>l. trim l \<noteq> []) (takeWhile (\<lambda>l. sectionMatch l = None) ls)))"
proof -
  let ?I = "''Introduction''"
  let ?pre = "takeWhile (\<lambda>l. sectionMatch l = None) ls"
  let ?rest = "dropWhile (\<lambda>l. sectionMatch l = None) ls"
  let ?intro = "filter (\<lambda>l. trim l \<noteq> []) ?pre"
  let ?m = "if ?intro = [] then [] else [(?I, ?intro)]"
  have "\<forall>l\<in>set ?pre. sectionMatch l = None" by (auto dest: set_takeWhileD)
  from intro_phase[OF this, of "[]" ?I]
  have pre: "foldl section_step ([], ?I) ?pre = (?m, ?I)" by simp
  have "foldl section_step ([], ?I) ls = foldl section_step (?m, ?I) ?rest"
    using pre by (metis foldl_append takeWhile_dropWhile_id)
  moreover have "map_of (fst (foldl section_step (?m, ?I) ?rest)) ?I = map_of ?m ?I"
  proof (cases ?rest)
    case Nil
    show ?thesis unfolding Nil by simp
  next
    case (Cons l rest')
    have mem: "set (l # rest') \<subseteq> set ls"
      unfolding Cons[symmetric] by (auto dest: set_dropWhileD)
    have "\<not> (sectionMatch (hd ?rest) = None)"
      by (rule hd_dropWhile) (simp add: Cons)
    then have "sectionMatch l \<noteq> None" unfolding Cons by simp
    then obtain t where t: "sectionMatch l = Some t" by blast
    from mem assms t have ne: "t \<noteq> ?I" by auto
    have step: "foldl section_step (?m, ?I) (l # rest') =
        foldl section_step (AList.update t [] ?m, t) rest'"
      using t by (simp add: section_step_def)
    have later: "map_of (fst (foldl section_step (AList.update t [] ?m, t) rest')) ?I =
        map_of (AList.update t [] ?m) ?I"
      using ne assms mem by (intro later_phase) auto
    show ?thesis
      unfolding Cons step later using ne by (simp add: update_conv')
  qed
  ultimately show ?thesis by simp
qed

text \<open>
  Claim C4 requires the line before the colon to be capitalized, and an \<open>Introduction\<close> entry
  in every mapping. In the code the line \<open>note:\<close> is a title, and a text that begins with a
  title has no \<open>Introduction\<close> entry.
\<close>

theorem sectionMatch_lower_case_counterexample:
  "sectionMatch ''note:'' = Some ''note'' \<and> \<not> spec_is_title ''note:'' \<and>
   extractSections (''first'' @ [newline] @ ''note:'' @ [newline] @ ''body'') =
     [(''Introduction'', [''first'']), (''note'', [''body''])] \<and>
   extractSections (''# Title'' @ [newline] @ ''body'') = [(''Title'', [''body''])]"
  by code_simp

text \<open>
  Claim C4, amended. A line is a section title if and only if it consists of one to six
  \<open>#\<close> characters, then white space, then at least one more character, or of at least one
  character followed by a final colon, capitalized or not (in both cases the text of the title
  has no line terminator in it). The non-blank lines that precede the first title are stored
  under the name \<open>Introduction\<close>: provided that no title is itself named \<open>Introduction\<close>, the
  mapping has this entry exactly when there is such a line.
\<close>

theorem sectionMatch_titles:
  "(sectionMatch line \<noteq> None \<longleftrightarrow>
      (\<exists>k w t. line = replicate k CHR ''#'' @ w @ t \<and> 1 \<le> k \<and> k \<le> 6 \<and>
               w \<noteq> [] \<and> (\<forall>c\<in>set w. is_space c) \<and> t \<noteq> [] \<and> (\<forall>c\<in>set t. dot c)) \<or>
      (\<exists>t. line = t @ '':'' \<and> t \<noteq> [] \<and> (\<forall>c\<in>set t. dot c))) \<and>
   ((\<forall>l\<in>set (split_on newline text). sectionMatch l \<noteq> Some ''Introduction'') \<longrightarrow>
      map_of (extractSections text) ''Introduction'' =
        (if filter (\<lambda>l. trim l \<noteq> [])
              (takeWhile (\<lambda>l. sectionMatch l = None) (split_on newline text)) = [] then None
         else Some (filter (\<lambda>l. trim l \<noteq> [])
              (takeWhile (\<lambda>l. sectionMatch l = None) (split_on newline text)))))"
proof -
  have "sectionMatch line \<noteq> None \<longleftrightarrow> heading_title line \<noteq> None \<or> colon_title line \<noteq> None"
    by (simp add: sectionMatch_def split: option.split)
  then have a: "sectionMatch line \<noteq> None \<longleftrightarrow>
      (\<exists>k w t. line = replicate k CHR ''#'' @ w @ t \<and> 1 \<le> k \<and> k \<le> 6 \<and>
               w \<noteq> [] \<and> (\<forall>c\<in>set w. is_space c) \<and> t \<noteq> [] \<and> (\<forall>c\<in>set t. dot c)) \<or>
      (\<exists>t. line = t @ '':'' \<and> t \<noteq> [] \<and> (\<forall>c\<in>set t. dot c))"
    unfolding heading_title_iff colon_title_iff .
  have b: "map_of (extractSections text) ''Introduction'' =
        (if filter (\<lambda>l. trim l \<noteq> [])
              (takeWhile (\<lambda>l. sectionMatch l = None) (split_on newline text)) = [] then None
         else Some (filter (\<lambda>l. trim l \<noteq> [])
              (takeWhile (\<lambda>l. sectionMatch l = None) (split_on newline text))))"
    if "\<forall>l\<in>set (split_on newline text). sectionMatch l \<noteq> Some ''Introduction''"
    unfolding extractSections_def using that by (rule introduction_entry)
  show ?thesis
    by (rule conjI, rule a, rule impI, erule b)
qed

theorem sectionMatch_titles_witness:
  "sectionMatch ''## Set up'' \<noteq> None \<and>
   map_of (extractSections (''first'' @ [newline] @ ''note:'' @ [newline] @ ''body''))
     ''Introduction'' = Some [''first'']"
proof -
  let ?text = "''first'' @ [newline] @ ''note:'' @ [newline] @ ''body''"
  have l: "split_on newline ?text = [''first'', ''note:'', ''body'']"
    by code_simp
  have m: "sectionMatch ''first'' = None" "sectionMatch ''note:'' = Some ''note''"
    "sectionMatch ''body'' = None"
    by code_simp+
  have t: "trim ''first'' = ''first''"
    by code_simp
  have h: "\<forall>l\<in>set (split_on newline ?text). sectionMatch l \<noteq> Some ''Introduction''"
    unfolding l using m by simp
  have "''## Set up'' = replicate 2 CHR ''#'' @ '' '' @ ''Set up''"
    by (simp add: numeral_2_eq_2)
  moreover have "\<forall>c\<in>set '' ''. is_space c" "\<forall>c\<in>set ''Set up''. dot c"
    by (simp_all add: is_space_def dot_def is_line_terminator_def)
  ultimately have "\<exists>k w t. ''## Set up'' = replicate k CHR ''#'' @ w @ t \<and> 1 \<le> k \<and> k \<le> 6 \<and>
      w \<noteq> [] \<and> (\<forall>c\<in>set w. is_space c) \<and> t \<noteq> [] \<and> (\<forall>c\<in>set t. dot c)"
    by (intro exI[of _ 2] exI[of _ "'' ''"] exI[of _ "''Set up''"]) simp
  then have a: "sectionMatch ''## Set up'' \<noteq> None"
    by (rule iffD2[OF sectionMatch_titles[of "''## Set up''" ?text, THEN conjunct1], OF disjI1])
  have "map_of (extractSections ?text) ''Introduction'' =
        (if filter (\<lambda>l. trim l \<noteq> [])
              (takeWhile (\<lambda>l. sectionMatch l = None) (split_on newline ?text)) = [] then None
         else Some (filter (\<lambda>l. trim l \<noteq> [])
              (takeWhile (\<lambda>l. sectionMatch l = None) (split_on newline ?text))))"
    by (rule sectionMatch_titles[of "''## Set up''" ?text, THEN conjunct2, THEN mp, OF h])
  then have "map_of (extractSections ?text) ''Introduction'' = Some [''first'']"
    unfolding l using m t by simp
  with a show ?thesis by blast
qed

end
